theory Spec2Isabelle
  imports Complex_Main "HOL-Library.Monad_Syntax"
begin

section \<open>The wave grid of \<^verbatim>\<open>_mainv15.go\<close>\<close>

text \<open>
  The program keeps a lattice of heights in two snapshots (\<open>current\<close>, \<open>previous\<close>) and a
  boolean mask, all stored as slices of rows. The model keeps the slices as lists of lists.
  A height is a \<open>real\<close> standing for a finite \<open>float64\<close>. The sum \<open>+= 20.0\<close> of \<open>addWave\<close>
  is rounded as \<open>float64\<close> rounds it (\<open>float64_add\<close> below), so what the theorems say about
  the amount an excitation adds is what the program stores. The arithmetic of \<open>update\<close> is
  exact: the theorems about the step speak about the formula the code writes down, and hold
  of the stored numbers up to rounding. Infinities and NaN have no counterpart. Go's \<open>int\<close>
  is modelled by \<open>int\<close>; every index of the program stays far below \<open>2^63\<close>.

  An index outside a slice makes the Go runtime panic. The model returns \<open>None\<close> there,
  so every function that indexes a slice has an \<open>option\<close> result.
\<close>

subsection \<open>Constants\<close>

definition screenWidth :: int where "screenWidth = 1200"
definition screenHeight :: int where "screenHeight = 800"
definition gridSize :: int where "gridSize = 1"
definition gridWidth :: int where "gridWidth = screenWidth div gridSize"
definition gridHeight :: int where "gridHeight = screenHeight div gridSize"
definition waveSpeed :: real where "waveSpeed = 0.25"
definition damping :: real where "damping = 0.995"

subsection \<open>Data\<close>

text \<open>
  The struct \<open>WaveGrid\<close>. Its field \<open>mask\<close> is called \<open>mask_g\<close> here, since \<open>mask\<close> is a
  constant of HOL.
\<close>

datatype Vector2 = Vector2 real real

record WaveGrid =
  current :: "real list list"
  previous :: "real list list"
  mask_g :: "bool list list"
  shape :: "Vector2 list"

subsection \<open>Slices of rows, loops, conversions\<close>

text \<open>\<open>g[y][x]\<close> as an expression: a panic (\<open>None\<close>) when either index is out of range.\<close>

definition get2 :: "'a list list \<Rightarrow> int \<Rightarrow> int \<Rightarrow> 'a option" where
  "get2 g y x =
     (if 0 \<le> y \<and> y < int (length g)
      then (let row = g ! nat y
            in if 0 \<le> x \<and> x < int (length row) then Some (row ! nat x) else None)
      else None)"

text \<open>\<open>g[y][x] = v\<close> as a statement: the same panic, otherwise the slice with one cell replaced.\<close>

definition set2 :: "'a list list \<Rightarrow> int \<Rightarrow> int \<Rightarrow> 'a \<Rightarrow> 'a list list option" where
  "set2 g y x v =
     (if 0 \<le> y \<and> y < int (length g)
      then (let row = g ! nat y
            in if 0 \<le> x \<and> x < int (length row)
               then Some (g[nat y := row[nat x := v]]) else None)
      else None)"

text \<open>A loop body run over a list of values, stopping at the first panic.\<close>

fun forEach :: "('a \<Rightarrow> 's \<Rightarrow> 's option) \<Rightarrow> 'a list \<Rightarrow> 's \<Rightarrow> 's option" where
  "forEach f [] s = Some s"
| "forEach f (a # as) s = (case f a s of None \<Rightarrow> None | Some s' \<Rightarrow> forEach f as s')"

text \<open>The values of \<open>i\<close> in \<^verbatim>\<open>for i := lo; i < hi; i++\<close>.\<close>

definition for_range :: "int \<Rightarrow> int \<Rightarrow> int list" where
  "for_range lo hi = [lo..hi - 1]"

text \<open>
  Go's conversion \<open>int(f)\<close> of a float: the fraction is discarded (truncation towards
  zero). A NaN, an infinity or a value beyond the range of \<open>int\<close> has no counterpart among
  the reals; Go leaves their conversion to the implementation.
\<close>

definition int_of_float :: "real \<Rightarrow> int" where
  "int_of_float r = (if 0 \<le> r then \<lfloor>r\<rfloor> else \<lceil>r\<rceil>)"

subsection \<open>Addition of \<open>float64\<close>\<close>

text \<open>
  \<open>float64\<close> is IEEE 754 binary64: 53 significant bits, rounding to the nearest
  representable number, ties to the one with an even last bit. A real \<open>x\<close> with
  \<open>2^e \<le> |x| < 2^(e+1)\<close> lies between multiples of \<open>2^(e-52)\<close>; below \<open>2^(-1022)\<close> the
  spacing stays \<open>2^(-1074)\<close>. \<open>float64_round x\<close> is the multiple nearest to \<open>x\<close>, and the
  sum of two \<open>float64\<close> is their exact sum rounded. Beyond the largest finite \<open>float64\<close>
  (just below \<open>2^1024\<close>) the program stores an infinity, which the model does not have;
  adding 20 to a finite \<open>float64\<close> never gets there.
\<close>

definition round_half_even :: "real \<Rightarrow> int" where
  "round_half_even r =
     (let f = \<lfloor>r\<rfloor>; d = r - real_of_int f
      in if d < 1 / 2 then f
         else if 1 / 2 < d then f + 1
         else if even f then f else f + 1)"

definition float64_round :: "real \<Rightarrow> real" where
  "float64_round x =
     (if x = 0 then 0
      else let e = max \<lfloor>log 2 \<bar>x\<bar>\<rfloor> (- 1022);
               q = 2 powr real_of_int (e - 52)
           in real_of_int (round_half_even (x / q)) * q)"

definition float64_add :: "real \<Rightarrow> real \<Rightarrow> real" where
  "float64_add a b = float64_round (a + b)"

subsection \<open>Construction\<close>

definition generateCircleShape :: "real \<Rightarrow> real \<Rightarrow> real \<Rightarrow> Vector2 list" where
  "generateCircleShape cx cy radius =
     (let segments = (100::nat)
      in map (\<lambda>i. let angle = (real i / real segments) * 2 * pi;
                       x = cx + radius * cos angle;
                       y = cy + radius * sin angle
                   in Vector2 x y) [0..<segments])"

definition pointInShape :: "real \<Rightarrow> real \<Rightarrow> bool" where
  "pointInShape px py =
     (let cx = screenWidth div 2; cy = screenHeight div 2;
          radius = 150;
          dx = px - real_of_int cx;
          dy = py - real_of_int cy;
          dist = sqrt (dx * dx + dy * dy)
      in dist < radius)"

definition initializeMask_cell :: "int \<Rightarrow> int \<Rightarrow> WaveGrid \<Rightarrow> WaveGrid option" where
  "initializeMask_cell y x wg =
     (let px = real_of_int (x * gridSize);
          py = real_of_int (y * gridSize)
      in do { m \<leftarrow> set2 (mask_g wg) y x (pointInShape px py);
              Some (wg\<lparr>mask_g := m\<rparr>) })"

definition initializeMask :: "WaveGrid \<Rightarrow> WaveGrid option" where
  "initializeMask wg =
     forEach (\<lambda>y. forEach (\<lambda>x. initializeMask_cell y x) (for_range 0 gridWidth))
       (for_range 0 gridHeight) wg"

definition NewWaveGrid :: "WaveGrid option" where
  "NewWaveGrid =
     initializeMask
       \<lparr>current = replicate (nat gridHeight) (replicate (nat gridWidth) 0),
        previous = replicate (nat gridHeight) (replicate (nat gridWidth) 0),
        mask_g = replicate (nat gridHeight) (replicate (nat gridWidth) False),
        shape = generateCircleShape (real_of_int (screenWidth div 2))
                  (real_of_int (screenHeight div 2)) 150\<rparr>"

subsection \<open>Excitation\<close>

definition addWave :: "real \<Rightarrow> real \<Rightarrow> WaveGrid \<Rightarrow> WaveGrid option" where
  "addWave mx my wg =
     (let gridX = int_of_float (mx / real_of_int gridSize);
          gridY = int_of_float (my / real_of_int gridSize)
      in if gridX \<ge> 0 \<and> gridX < gridWidth \<and> gridY \<ge> 0 \<and> gridY < gridHeight
         then do { m \<leftarrow> get2 (mask_g wg) gridY gridX;
                   if m
                   then do { c \<leftarrow> get2 (current wg) gridY gridX;
                             cur \<leftarrow> set2 (current wg) gridY gridX (float64_add c 20);
                             Some (wg\<lparr>current := cur\<rparr>) }
                   else Some wg }
         else Some wg)"

subsection \<open>The step\<close>

definition neighbors :: "(int \<times> int) list" where
  "neighbors = [(0, -1), (0, 1), (-1, 0), (1, 0)]"

text \<open>One round of the loop over the four neighbours; the state is \<open>(laplacian, numNeighbors)\<close>.\<close>

definition neighborStep ::
  "WaveGrid \<Rightarrow> int \<Rightarrow> int \<Rightarrow> int \<times> int \<Rightarrow> real \<times> int \<Rightarrow> (real \<times> int) option" where
  "neighborStep wg x y n acc =
     (case n of (dx, dy) \<Rightarrow> case acc of (laplacian, numNeighbors) \<Rightarrow>
        let nx = x + dx; ny = y + dy
        in if nx \<ge> 0 \<and> nx < gridWidth \<and> ny \<ge> 0 \<and> ny < gridHeight
           then do { m \<leftarrow> get2 (mask_g wg) ny nx;
                     if m
                     then do { h \<leftarrow> get2 (current wg) ny nx;
                               Some (laplacian + h, numNeighbors + 1) }
                     else do { c \<leftarrow> get2 (current wg) y x;
                               Some (laplacian + - c, numNeighbors + 1) } }
           else Some (laplacian, numNeighbors))"

text \<open>
  The value of \<open>laplacian\<close> at line 130, after
  \<^verbatim>\<open>laplacian -= float64(numNeighbors) * wg.current[y][x]\<close>.
\<close>

definition cellLaplacian :: "WaveGrid \<Rightarrow> int \<Rightarrow> int \<Rightarrow> real option" where
  "cellLaplacian wg x y =
     do { acc \<leftarrow> forEach (neighborStep wg x y) neighbors (0, 0);
          c \<leftarrow> get2 (current wg) y x;
          Some (fst acc - real_of_int (snd acc) * c) }"

text \<open>
  The body of the double loop of \<open>update\<close> for one cell. \<open>current\<close> and \<open>previous\<close> are
  written in place; the rows of the two slices are allocated separately by \<open>NewWaveGrid\<close>,
  so a write to one is not seen through the other.
\<close>

definition updateCell :: "int \<Rightarrow> int \<Rightarrow> WaveGrid \<Rightarrow> WaveGrid option" where
  "updateCell y x wg =
     (let c2 = waveSpeed * waveSpeed
      in do { m \<leftarrow> get2 (mask_g wg) y x;
              if \<not> m then Some wg
              else do { laplacian \<leftarrow> cellLaplacian wg x y;
                        c \<leftarrow> get2 (current wg) y x;
                        p \<leftarrow> get2 (previous wg) y x;
                        let newHeight = (2 * c - p + c2 * laplacian) * damping;
                        prev \<leftarrow> set2 (previous wg) y x c;
                        let wg1 = wg\<lparr>previous := prev\<rparr>;
                        cur \<leftarrow> set2 (current wg1) y x newHeight;
                        Some (wg1\<lparr>current := cur\<rparr>) } })"

text \<open>
  The three loops of \<open>update\<close>: the sweep over the interior cells (lines 98 to 139), the
  loop over \<open>x\<close> that zeroes rows 0 and \<open>gridHeight - 1\<close> (lines 142 to 145), and the loop
  over \<open>y\<close> that zeroes columns 0 and \<open>gridWidth - 1\<close> (lines 146 to 149).
\<close>

definition update_sweep :: "WaveGrid \<Rightarrow> WaveGrid option" where
  "update_sweep wg =
     forEach (\<lambda>y. forEach (\<lambda>x. updateCell y x) (for_range 1 (gridWidth - 1)))
       (for_range 1 (gridHeight - 1)) wg"

definition zeroRowsAt :: "int \<Rightarrow> WaveGrid \<Rightarrow> WaveGrid option" where
  "zeroRowsAt x wg =
     do { c0 \<leftarrow> set2 (current wg) 0 x 0;
          c1 \<leftarrow> set2 c0 (gridHeight - 1) x 0;
          Some (wg\<lparr>current := c1\<rparr>) }"

definition zeroColsAt :: "int \<Rightarrow> WaveGrid \<Rightarrow> WaveGrid option" where
  "zeroColsAt y wg =
     do { c0 \<leftarrow> set2 (current wg) y 0 0;
          c1 \<leftarrow> set2 c0 y (gridWidth - 1) 0;
          Some (wg\<lparr>current := c1\<rparr>) }"

definition update :: "WaveGrid \<Rightarrow> WaveGrid option" where
  "update wg =
     do { wg1 \<leftarrow> update_sweep wg;
          wg2 \<leftarrow> forEach zeroRowsAt (for_range 0 gridWidth) wg1;
          forEach zeroColsAt (for_range 0 gridHeight) wg2 }"

text \<open>
  What the driver does with a grid between construction and drawing: \<open>Game.Update\<close> calls
  \<open>addWave\<close> (when the button is down) and \<open>update\<close>. A run is a list of such calls on
  the grid that \<open>NewWaveGrid\<close> returns.
\<close>

datatype action = AddWave real real | Update

fun act :: "action \<Rightarrow> WaveGrid \<Rightarrow> WaveGrid option" where
  "act (AddWave mx my) wg = addWave mx my wg"
| "act Update wg = update wg"

definition run :: "action list \<Rightarrow> WaveGrid option" where
  "run as = do { wg \<leftarrow> NewWaveGrid; forEach act as wg }"

section \<open>Runs without a panic\<close>

text \<open>
  On a grid whose three slices have \<open>gridHeight\<close> rows of \<open>gridWidth\<close> cells, no index of
  the program is out of range. The definitions of this section give the result of each
  function in that case, with plain reads and writes; the lemmas below prove that the
  functions of the model return exactly these results on such a grid, and that the results
  are such grids again. Every grid the program ever holds comes from \<open>NewWaveGrid\<close>, so
  these are the runs of the program.
\<close>

subsection \<open>Well-formed grids\<close>

definition at2 :: "'a list list \<Rightarrow> int \<Rightarrow> int \<Rightarrow> 'a" where
  "at2 g y x = g ! nat y ! nat x"

definition put2 :: "'a list list \<Rightarrow> int \<Rightarrow> int \<Rightarrow> 'a \<Rightarrow> 'a list list" where
  "put2 g y x v = g[nat y := (g ! nat y)[nat x := v]]"

definition inGrid :: "int \<Rightarrow> int \<Rightarrow> bool" where
  "inGrid y x = (0 \<le> y \<and> y < gridHeight \<and> 0 \<le> x \<and> x < gridWidth)"

definition dims :: "'a list list \<Rightarrow> bool" where
  "dims g = (length g = nat gridHeight \<and> list_all (\<lambda>row. length row = nat gridWidth) g)"

definition wf_grid :: "WaveGrid \<Rightarrow> bool" where
  "wf_grid wg = (dims (current wg) \<and> dims (previous wg) \<and> dims (mask_g wg))"

subsection \<open>The step\<close>

text \<open>
  \<open>nbAcc\<close> and \<open>nbCount\<close> are what one neighbour adds to \<open>laplacian\<close> and to
  \<open>numNeighbors\<close> inside the loop. \<open>nbTerm\<close> is the share of one neighbour in the value of
  \<open>laplacian\<close> after line 130: a neighbour in the mask gives its height minus the cell's, a
  neighbour outside the mask gives minus twice the cell's height (once in the loop, once
  through \<open>numNeighbors\<close>), a neighbour outside the lattice gives nothing.
\<close>

definition nbAcc :: "WaveGrid \<Rightarrow> int \<Rightarrow> int \<Rightarrow> int \<times> int \<Rightarrow> real" where
  "nbAcc wg x y n =
     (case n of (dx, dy) \<Rightarrow>
        if inGrid (y + dy) (x + dx)
        then (if at2 (mask_g wg) (y + dy) (x + dx) then at2 (current wg) (y + dy) (x + dx)
              else - at2 (current wg) y x)
        else 0)"

definition nbCount :: "int \<Rightarrow> int \<Rightarrow> int \<times> int \<Rightarrow> int" where
  "nbCount x y n = (case n of (dx, dy) \<Rightarrow> if inGrid (y + dy) (x + dx) then 1 else 0)"

definition nbTerm :: "WaveGrid \<Rightarrow> int \<Rightarrow> int \<Rightarrow> int \<times> int \<Rightarrow> real" where
  "nbTerm wg x y n =
     (case n of (dx, dy) \<Rightarrow>
        if inGrid (y + dy) (x + dx)
        then (if at2 (mask_g wg) (y + dy) (x + dx)
              then at2 (current wg) (y + dy) (x + dx) - at2 (current wg) y x
              else - 2 * at2 (current wg) y x)
        else 0)"

definition cellLaplacian_val :: "WaveGrid \<Rightarrow> int \<Rightarrow> int \<Rightarrow> real" where
  "cellLaplacian_val wg x y =
     nbTerm wg x y (0, -1) + nbTerm wg x y (0, 1) + nbTerm wg x y (-1, 0) + nbTerm wg x y (1, 0)"

definition newHeight_val :: "WaveGrid \<Rightarrow> int \<Rightarrow> int \<Rightarrow> real" where
  "newHeight_val wg x y =
     (2 * at2 (current wg) y x - at2 (previous wg) y x
        + waveSpeed * waveSpeed * cellLaplacian_val wg x y) * damping"

definition updateCell_val :: "int \<Rightarrow> int \<Rightarrow> WaveGrid \<Rightarrow> WaveGrid" where
  "updateCell_val y x wg =
     (if at2 (mask_g wg) y x
      then wg\<lparr>previous := put2 (previous wg) y x (at2 (current wg) y x),
              current := put2 (current wg) y x (newHeight_val wg x y)\<rparr>
      else wg)"

definition row_sweep_val :: "int \<Rightarrow> WaveGrid \<Rightarrow> WaveGrid" where
  "row_sweep_val y wg = fold (\<lambda>x. updateCell_val y x) (for_range 1 (gridWidth - 1)) wg"

definition update_sweep_val :: "WaveGrid \<Rightarrow> WaveGrid" where
  "update_sweep_val wg =
     fold (\<lambda>y. fold (\<lambda>x. updateCell_val y x) (for_range 1 (gridWidth - 1)))
       (for_range 1 (gridHeight - 1)) wg"

text \<open>
  The grid at the moment the sweep reaches the cell \<open>(x, y)\<close>: the rows above are done, and
  so are the cells to the left in row \<open>y\<close>.
\<close>

definition sweep_before :: "int \<Rightarrow> int \<Rightarrow> WaveGrid \<Rightarrow> WaveGrid" where
  "sweep_before y x wg =
     fold (\<lambda>x'. updateCell_val y x') (for_range 1 x) (fold row_sweep_val (for_range 1 y) wg)"

definition zeroRowsAt_val :: "int \<Rightarrow> WaveGrid \<Rightarrow> WaveGrid" where
  "zeroRowsAt_val x wg = wg\<lparr>current := put2 (put2 (current wg) 0 x 0) (gridHeight - 1) x 0\<rparr>"

definition zeroColsAt_val :: "int \<Rightarrow> WaveGrid \<Rightarrow> WaveGrid" where
  "zeroColsAt_val y wg = wg\<lparr>current := put2 (put2 (current wg) y 0 0) y (gridWidth - 1) 0\<rparr>"

definition update_val :: "WaveGrid \<Rightarrow> WaveGrid" where
  "update_val wg =
     fold zeroColsAt_val (for_range 0 gridHeight)
       (fold zeroRowsAt_val (for_range 0 gridWidth) (update_sweep_val wg))"

subsection \<open>Excitation, construction, runs\<close>

definition addWave_val :: "real \<Rightarrow> real \<Rightarrow> WaveGrid \<Rightarrow> WaveGrid" where
  "addWave_val mx my wg =
     (let gridX = int_of_float (mx / real_of_int gridSize);
          gridY = int_of_float (my / real_of_int gridSize)
      in if inGrid gridY gridX \<and> at2 (mask_g wg) gridY gridX
         then wg\<lparr>current := put2 (current wg) gridY gridX
                                (float64_add (at2 (current wg) gridY gridX) 20)\<rparr>
         else wg)"

definition initializeMask_cell_val :: "int \<Rightarrow> int \<Rightarrow> WaveGrid \<Rightarrow> WaveGrid" where
  "initializeMask_cell_val y x wg =
     wg\<lparr>mask_g := put2 (mask_g wg) y x
            (pointInShape (real_of_int (x * gridSize)) (real_of_int (y * gridSize)))\<rparr>"

definition initializeMask_val :: "WaveGrid \<Rightarrow> WaveGrid" where
  "initializeMask_val wg =
     fold (\<lambda>y. fold (\<lambda>x. initializeMask_cell_val y x) (for_range 0 gridWidth))
       (for_range 0 gridHeight) wg"

definition blankGrid :: WaveGrid where
  "blankGrid =
     \<lparr>current = replicate (nat gridHeight) (replicate (nat gridWidth) 0),
      previous = replicate (nat gridHeight) (replicate (nat gridWidth) 0),
      mask_g = replicate (nat gridHeight) (replicate (nat gridWidth) False),
      shape = generateCircleShape (real_of_int (screenWidth div 2))
                (real_of_int (screenHeight div 2)) 150\<rparr>"

definition NewWaveGrid_val :: WaveGrid where
  "NewWaveGrid_val = initializeMask_val blankGrid"

fun act_val :: "action \<Rightarrow> WaveGrid \<Rightarrow> WaveGrid" where
  "act_val (AddWave mx my) wg = addWave_val mx my wg"
| "act_val Update wg = update_val wg"

definition run_val :: "action list \<Rightarrow> WaveGrid" where
  "run_val as = fold act_val as NewWaveGrid_val"

text \<open>The constructed grid with the height \<open>h\<close> stored in the cell (600, 400).\<close>

definition grid_with_height :: "real \<Rightarrow> WaveGrid" where
  "grid_with_height h =
     NewWaveGrid_val\<lparr>current := put2 (current NewWaveGrid_val) 400 600 h\<rparr>"

section \<open>Notions of the specification\<close>

text \<open>
  The definitions of this section follow the words of the specification, not the code; the
  theorems compare them with what the code computes.

  The falloff of an excitation (section 4.2): \<open>strength * (1 - d/radius)\<^sup>2\<close> at distance \<open>d\<close>
  from the centre, and nothing outside the radius.
\<close>

definition spec_contribution :: "real \<Rightarrow> real \<Rightarrow> real \<Rightarrow> real" where
  "spec_contribution strength radius d =
     (if d < radius then strength * (1 - d / radius)\<^sup>2 else 0)"

text \<open>
  The Laplacian of section 4.3: a neighbour inside the mask adds its height minus the
  cell's, a neighbour outside the mask or outside the lattice adds minus the cell's height,
  and the sum is divided by the number of neighbours, four.
\<close>

definition spec_nbTerm :: "WaveGrid \<Rightarrow> int \<Rightarrow> int \<Rightarrow> int \<times> int \<Rightarrow> real" where
  "spec_nbTerm wg x y n =
     (case n of (dx, dy) \<Rightarrow>
        if inGrid (y + dy) (x + dx) \<and> at2 (mask_g wg) (y + dy) (x + dx)
        then at2 (current wg) (y + dy) (x + dx) - at2 (current wg) y x
        else - at2 (current wg) y x)"

definition spec_laplacian :: "WaveGrid \<Rightarrow> int \<Rightarrow> int \<Rightarrow> real" where
  "spec_laplacian wg x y =
     (spec_nbTerm wg x y (0, -1) + spec_nbTerm wg x y (0, 1)
        + spec_nbTerm wg x y (-1, 0) + spec_nbTerm wg x y (1, 0)) / 4"

text \<open>
  The height that the cell rule of the code gives to the cell \<open>(x, y)\<close> when every height
  it reads is the one of the grid \<open>wg\<close>, the grid before the step.
\<close>

definition settled_height :: "WaveGrid \<Rightarrow> int \<Rightarrow> int \<Rightarrow> real option" where
  "settled_height wg y x = do { wg' \<leftarrow> updateCell y x wg; get2 (current wg') y x }"

text \<open>
  The sum of the squared heights over the cells of the mask (section 8).
\<close>

definition sumSquares :: "WaveGrid \<Rightarrow> real" where
  "sumSquares wg =
     (\<Sum>y\<in>{0..<gridHeight}. \<Sum>x\<in>{0..<gridWidth}.
        if at2 (mask_g wg) y x then (at2 (current wg) y x)\<^sup>2 else 0)"

section \<open>Predicates of the proofs\<close>

text \<open>
  \<open>outside_zero\<close>: every cell outside the mask has height zero. \<open>at_rest\<close>: every
  cell of both snapshots is zero. \<open>is_sum a b c\<close>: the three grids share one mask, and
  cell by cell the heights of \<open>c\<close> are those of \<open>a\<close> plus those of \<open>b\<close>, in both snapshots.
\<close>

definition outside_zero :: "WaveGrid \<Rightarrow> bool" where
  "outside_zero wg =
     (\<forall>y x. inGrid y x \<longrightarrow> \<not> at2 (mask_g wg) y x \<longrightarrow> at2 (current wg) y x = 0)"

definition at_rest :: "WaveGrid \<Rightarrow> bool" where
  "at_rest wg =
     (\<forall>y x. inGrid y x \<longrightarrow> at2 (current wg) y x = 0 \<and> at2 (previous wg) y x = 0)"

definition is_sum :: "WaveGrid \<Rightarrow> WaveGrid \<Rightarrow> WaveGrid \<Rightarrow> bool" where
  "is_sum a b c =
     (wf_grid a \<and> wf_grid b \<and> wf_grid c \<and> mask_g b = mask_g a \<and> mask_g c = mask_g a
      \<and> (\<forall>y x. inGrid y x \<longrightarrow>
            at2 (current c) y x = at2 (current a) y x + at2 (current b) y x
            \<and> at2 (previous c) y x = at2 (previous a) y x + at2 (previous b) y x))"

section \<open>Lemmas\<close>

subsection \<open>Reads and writes on a slice of the right size\<close>

lemma gridWidth_val: "gridWidth = 1200"
  by (simp add: gridWidth_def screenWidth_def gridSize_def)

lemma gridHeight_val: "gridHeight = 800"
  by (simp add: gridHeight_def screenHeight_def gridSize_def)

lemma dims_row: "dims g \<Longrightarrow> 0 \<le> y \<Longrightarrow> y < gridHeight \<Longrightarrow> length (g ! nat y) = nat gridWidth"
  by (simp add: dims_def list_all_length)

lemma get2_at2: "dims g \<Longrightarrow> inGrid y x \<Longrightarrow> get2 g y x = Some (at2 g y x)"
  using dims_row [of g y] by (simp add: get2_def at2_def inGrid_def dims_def)

lemma set2_put2: "dims g \<Longrightarrow> inGrid y x \<Longrightarrow> set2 g y x v = Some (put2 g y x v)"
  using dims_row [of g y] by (simp add: set2_def put2_def inGrid_def dims_def)

lemma dims_put2: "dims g \<Longrightarrow> dims (put2 g y x v)"
proof -
  assume d: "dims g"
  have "length (g[nat y := (g ! nat y)[nat x := v]] ! n) = nat gridWidth"
    if "n < length g" for n
  proof (cases "n = nat y")
    case True
    with that d show ?thesis by (simp add: dims_def list_all_length)
  next
    case False
    with that d show ?thesis by (simp add: dims_def list_all_length)
  qed
  with d show ?thesis by (simp add: dims_def put2_def list_all_length)
qed

lemma at2_put2:
  assumes "dims g" "inGrid y x" "0 \<le> y'" "0 \<le> x'"
  shows "at2 (put2 g y x v) y' x' = (if y' = y \<and> x' = x then v else at2 g y' x')"
proof -
  have ly: "nat y < length g" using assms(1,2) by (simp add: dims_def inGrid_def)
  have lx: "nat x < length (g ! nat y)"
    using dims_row [of g y] assms(1,2) by (simp add: inGrid_def)
  have ny: "nat y' = nat y \<longleftrightarrow> y' = y" using assms(2,3) by (auto simp add: inGrid_def)
  have nx: "nat x' = nat x \<longleftrightarrow> x' = x" using assms(2,4) by (auto simp add: inGrid_def)
  show ?thesis
    using ly lx ny nx by (auto simp add: at2_def put2_def nth_list_update)
qed

subsection \<open>Loops\<close>

text \<open>
  A loop whose body returns \<open>Some (g a s)\<close> on every state that satisfies an invariant
  returns the fold of \<open>g\<close>.
\<close>

lemma forEach_fold:
  assumes "\<And>a s. a \<in> set xs \<Longrightarrow> I s \<Longrightarrow> f a s = Some (g a s) \<and> I (g a s)" and "I s"
  shows "forEach f xs s = Some (fold g xs s) \<and> I (fold g xs s)"
  using assms by (induction xs arbitrary: s) auto

subsection \<open>The functions of the model return the values of the previous sections\<close>

lemma nbTerm_split: "nbTerm wg x y n = nbAcc wg x y n - real_of_int (nbCount x y n) * at2 (current wg) y x"
  by (cases n) (simp add: nbTerm_def nbAcc_def nbCount_def)

lemma neighborStep_val:
  assumes "wf_grid wg" "inGrid y x"
  shows "neighborStep wg x y n (l, k) = Some (l + nbAcc wg x y n, k + nbCount x y n)"
proof (cases n)
  case (Pair dx dy)
  show ?thesis
  proof (cases "inGrid (y + dy) (x + dx)")
    case True
    then have c: "x + dx \<ge> 0 \<and> x + dx < gridWidth \<and> y + dy \<ge> 0 \<and> y + dy < gridHeight"
      by (simp add: inGrid_def)
    from assms True show ?thesis
      unfolding neighborStep_def Pair
      by (simp add: c get2_at2 wf_grid_def nbAcc_def nbCount_def)
  next
    case False
    then have c: "\<not> (x + dx \<ge> 0 \<and> x + dx < gridWidth \<and> y + dy \<ge> 0 \<and> y + dy < gridHeight)"
      by (auto simp add: inGrid_def)
    from False show ?thesis
      unfolding neighborStep_def Pair
      by (simp add: c nbAcc_def nbCount_def del: de_Morgan_conj)
  qed
qed

lemma cellLaplacian_eq:
  assumes "wf_grid wg" "inGrid y x"
  shows "cellLaplacian wg x y = Some (cellLaplacian_val wg x y)"
proof -
  have "forEach (neighborStep wg x y) neighbors (0, 0) =
          Some (nbAcc wg x y (0, -1) + nbAcc wg x y (0, 1) + nbAcc wg x y (-1, 0) + nbAcc wg x y (1, 0),
                nbCount x y (0, -1) + nbCount x y (0, 1) + nbCount x y (-1, 0) + nbCount x y (1, 0))"
    by (simp add: neighbors_def neighborStep_val [OF assms])
  then show ?thesis
    using assms
    by (simp add: cellLaplacian_def cellLaplacian_val_def get2_at2 wf_grid_def nbTerm_split
        algebra_simps)
qed

lemma updateCell_eq:
  assumes "wf_grid wg" "inGrid y x"
  shows "updateCell y x wg = Some (updateCell_val y x wg)"
  using assms
  by (simp add: updateCell_def updateCell_val_def cellLaplacian_eq get2_at2 set2_put2 wf_grid_def
      newHeight_val_def Let_def)

lemma updateCell_val_wf: "wf_grid wg \<Longrightarrow> wf_grid (updateCell_val y x wg)"
  by (simp add: updateCell_val_def wf_grid_def dims_put2)

lemma updateCell_val_mask: "mask_g (updateCell_val y x wg) = mask_g wg"
  by (simp add: updateCell_val_def)

lemma in_for_range: "a \<in> set (for_range lo hi) \<longleftrightarrow> lo \<le> a \<and> a < hi"
  by (auto simp add: for_range_def)

lemma fold_inv:
  assumes "\<And>a s. a \<in> set xs \<Longrightarrow> I s \<Longrightarrow> I (g a s)" and "I s"
  shows "I (fold g xs s)"
  using assms by (induction xs arbitrary: s) auto

lemma fold_same:
  assumes "\<And>a s. a \<in> set xs \<Longrightarrow> h (g a s) = h s"
  shows "h (fold g xs s) = h s"
  using assms by (induction xs arbitrary: s) auto

lemma row_sweep_eq:
  assumes "wf_grid wg" "1 \<le> y" "y < gridHeight - 1"
  shows "forEach (\<lambda>x. updateCell y x) (for_range 1 (gridWidth - 1)) wg
           = Some (fold (\<lambda>x. updateCell_val y x) (for_range 1 (gridWidth - 1)) wg)
         \<and> wf_grid (fold (\<lambda>x. updateCell_val y x) (for_range 1 (gridWidth - 1)) wg)"
proof (rule forEach_fold [where I = wf_grid])
  fix a s
  assume "a \<in> set (for_range 1 (gridWidth - 1))" and w: "wf_grid s"
  then have "inGrid y a" using assms(2,3) by (simp add: in_for_range inGrid_def)
  with w show "updateCell y a s = Some (updateCell_val y a s) \<and> wf_grid (updateCell_val y a s)"
    by (simp add: updateCell_eq updateCell_val_wf)
qed (rule assms(1))

lemma update_sweep_eq:
  assumes "wf_grid wg"
  shows "update_sweep wg = Some (update_sweep_val wg) \<and> wf_grid (update_sweep_val wg)"
  unfolding update_sweep_def update_sweep_val_def
proof (rule forEach_fold [where I = wf_grid])
  fix a s
  assume "a \<in> set (for_range 1 (gridHeight - 1))" and w: "wf_grid s"
  then have "1 \<le> a" "a < gridHeight - 1" by (simp_all add: in_for_range)
  from row_sweep_eq [OF w this]
  show "forEach (\<lambda>x. updateCell a x) (for_range 1 (gridWidth - 1)) s
          = Some (fold (\<lambda>x. updateCell_val a x) (for_range 1 (gridWidth - 1)) s)
        \<and> wf_grid (fold (\<lambda>x. updateCell_val a x) (for_range 1 (gridWidth - 1)) s)" .
qed (rule assms)

lemma zeroRowsAt_eq:
  assumes "wf_grid wg" "0 \<le> x" "x < gridWidth"
  shows "zeroRowsAt x wg = Some (zeroRowsAt_val x wg) \<and> wf_grid (zeroRowsAt_val x wg)"
proof -
  have a: "inGrid 0 x" "inGrid (gridHeight - 1) x"
    using assms(2,3) by (simp_all add: inGrid_def gridHeight_val)
  from assms(1) a show ?thesis
    by (simp add: zeroRowsAt_def zeroRowsAt_val_def set2_put2 dims_put2 wf_grid_def)
qed

lemma zeroColsAt_eq:
  assumes "wf_grid wg" "0 \<le> y" "y < gridHeight"
  shows "zeroColsAt y wg = Some (zeroColsAt_val y wg) \<and> wf_grid (zeroColsAt_val y wg)"
proof -
  have a: "inGrid y 0" "inGrid y (gridWidth - 1)"
    using assms(2,3) by (simp_all add: inGrid_def gridWidth_val)
  from assms(1) a show ?thesis
    by (simp add: zeroColsAt_def zeroColsAt_val_def set2_put2 dims_put2 wf_grid_def)
qed

lemma update_eq:
  assumes "wf_grid wg"
  shows "update wg = Some (update_val wg) \<and> wf_grid (update_val wg)"
proof -
  note s = update_sweep_eq [OF assms]
  have r: "forEach zeroRowsAt (for_range 0 gridWidth) (update_sweep_val wg)
             = Some (fold zeroRowsAt_val (for_range 0 gridWidth) (update_sweep_val wg))
           \<and> wf_grid (fold zeroRowsAt_val (for_range 0 gridWidth) (update_sweep_val wg))"
    by (rule forEach_fold [where I = wf_grid]) (simp_all add: in_for_range zeroRowsAt_eq s)
  have c: "forEach zeroColsAt (for_range 0 gridHeight)
               (fold zeroRowsAt_val (for_range 0 gridWidth) (update_sweep_val wg))
             = Some (update_val wg) \<and> wf_grid (update_val wg)"
    unfolding update_val_def
    by (rule forEach_fold [where I = wf_grid]) (simp_all add: in_for_range zeroColsAt_eq r)
  from s r c show ?thesis by (simp add: update_def)
qed

lemma addWave_eq:
  assumes "wf_grid wg"
  shows "addWave mx my wg = Some (addWave_val mx my wg) \<and> wf_grid (addWave_val mx my wg)"
proof (cases "inGrid (int_of_float (my / real_of_int gridSize)) (int_of_float (mx / real_of_int gridSize))")
  case True
  then have "int_of_float (mx / real_of_int gridSize) \<ge> 0
      \<and> int_of_float (mx / real_of_int gridSize) < gridWidth
      \<and> int_of_float (my / real_of_int gridSize) \<ge> 0
      \<and> int_of_float (my / real_of_int gridSize) < gridHeight"
    by (simp add: inGrid_def)
  with True assms show ?thesis
    by (simp add: addWave_def addWave_val_def Let_def get2_at2 set2_put2 dims_put2 wf_grid_def)
next
  case False
  then have "\<not> (int_of_float (mx / real_of_int gridSize) \<ge> 0
      \<and> int_of_float (mx / real_of_int gridSize) < gridWidth
      \<and> int_of_float (my / real_of_int gridSize) \<ge> 0
      \<and> int_of_float (my / real_of_int gridSize) < gridHeight)"
    by (auto simp add: inGrid_def)
  with False assms show ?thesis
    by (simp add: addWave_def addWave_val_def Let_def del: de_Morgan_conj)
qed

lemma update_sweep_val_mask: "mask_g (update_sweep_val wg) = mask_g wg"
  unfolding update_sweep_val_def
  by (rule fold_same, rule fold_same) (rule updateCell_val_mask)

lemma update_val_mask: "mask_g (update_val wg) = mask_g wg"
proof -
  have "mask_g (update_val wg) = mask_g (fold zeroRowsAt_val (for_range 0 gridWidth) (update_sweep_val wg))"
    unfolding update_val_def by (rule fold_same) (simp add: zeroColsAt_val_def)
  also have "\<dots> = mask_g (update_sweep_val wg)"
    by (rule fold_same) (simp add: zeroRowsAt_val_def)
  finally show ?thesis by (simp add: update_sweep_val_mask)
qed

lemma addWave_val_mask: "mask_g (addWave_val mx my wg) = mask_g wg"
  by (simp add: addWave_val_def Let_def)

subsection \<open>Construction\<close>

lemma pointInShape_iff:
  "pointInShape px py \<longleftrightarrow> (px - 600) * (px - 600) + (py - 400) * (py - 400) < 22500"
proof -
  have "sqrt 22500 = sqrt (150 ^ 2)" by simp
  also have "\<dots> = (150::real)" by (simp del: power2_eq_square)
  finally have s: "sqrt 22500 = (150::real)" .
  have "sqrt a < 150 \<longleftrightarrow> a < 22500" for a :: real
    using real_sqrt_less_iff [of a 22500] by (simp add: s)
  then show ?thesis
    by (simp add: pointInShape_def screenWidth_def screenHeight_def Let_def)
qed

lemma dims_replicate: "dims (replicate (nat gridHeight) (replicate (nat gridWidth) v))"
  by (simp add: dims_def list_all_length)

lemma at2_replicate:
  "inGrid y x \<Longrightarrow> at2 (replicate (nat gridHeight) (replicate (nat gridWidth) v)) y x = v"
  by (simp add: at2_def inGrid_def)

lemma wf_blankGrid: "wf_grid blankGrid"
  by (simp add: wf_grid_def blankGrid_def dims_replicate)

lemma initializeMask_cell_eq:
  assumes "wf_grid wg" "inGrid y x"
  shows "initializeMask_cell y x wg = Some (initializeMask_cell_val y x wg)
         \<and> wf_grid (initializeMask_cell_val y x wg)"
  using assms
  by (simp add: initializeMask_cell_def initializeMask_cell_val_def Let_def set2_put2 dims_put2
      wf_grid_def)

lemma initializeMask_eq:
  assumes "wf_grid wg"
  shows "initializeMask wg = Some (initializeMask_val wg) \<and> wf_grid (initializeMask_val wg)"
  unfolding initializeMask_def initializeMask_val_def
proof (rule forEach_fold [where I = wf_grid])
  fix a s
  assume a: "a \<in> set (for_range 0 gridHeight)" and w: "wf_grid s"
  show "forEach (\<lambda>x. initializeMask_cell a x) (for_range 0 gridWidth) s
          = Some (fold (\<lambda>x. initializeMask_cell_val a x) (for_range 0 gridWidth) s)
        \<and> wf_grid (fold (\<lambda>x. initializeMask_cell_val a x) (for_range 0 gridWidth) s)"
  proof (rule forEach_fold [where I = wf_grid])
    fix b t
    assume "b \<in> set (for_range 0 gridWidth)" and "wf_grid t"
    with a show "initializeMask_cell a b t = Some (initializeMask_cell_val a b t)
        \<and> wf_grid (initializeMask_cell_val a b t)"
      by (simp add: initializeMask_cell_eq in_for_range inGrid_def)
  qed (rule w)
qed (rule assms)

lemma NewWaveGrid_eq: "NewWaveGrid = Some NewWaveGrid_val \<and> wf_grid NewWaveGrid_val"
  using initializeMask_eq [OF wf_blankGrid]
  by (simp add: NewWaveGrid_def NewWaveGrid_val_def blankGrid_def)

lemma initializeMask_val_current: "current (initializeMask_val wg) = current wg"
  unfolding initializeMask_val_def
  by (rule fold_same, rule fold_same) (simp add: initializeMask_cell_val_def)

lemma initializeMask_val_previous: "previous (initializeMask_val wg) = previous wg"
  unfolding initializeMask_val_def
  by (rule fold_same, rule fold_same) (simp add: initializeMask_cell_val_def)

lemma mask_row_fold:
  assumes "set xs \<subseteq> {0..<gridWidth}" "0 \<le> y" "y < gridHeight" "dims (mask_g wg)" "inGrid y' x'"
  shows "dims (mask_g (fold (\<lambda>x. initializeMask_cell_val y x) xs wg))
         \<and> at2 (mask_g (fold (\<lambda>x. initializeMask_cell_val y x) xs wg)) y' x'
             = (if y' = y \<and> x' \<in> set xs
                then pointInShape (real_of_int (x' * gridSize)) (real_of_int (y' * gridSize))
                else at2 (mask_g wg) y' x')"
  using assms(1,4)
proof (induction xs arbitrary: wg)
  case Nil
  then show ?case by simp
next
  case (Cons a xs)
  have g: "inGrid y a" using Cons.prems(1) assms(2,3) by (simp add: inGrid_def)
  have d: "dims (mask_g (initializeMask_cell_val y a wg))"
    using Cons.prems(2) by (simp add: initializeMask_cell_val_def dims_put2)
  have x: "set xs \<subseteq> {0..<gridWidth}" using Cons.prems(1) by simp
  have p: "0 \<le> y'" "0 \<le> x'" using assms(5) by (simp_all add: inGrid_def)
  have v: "at2 (mask_g (initializeMask_cell_val y a wg)) y' x'
        = (if y' = y \<and> x' = a
           then pointInShape (real_of_int (a * gridSize)) (real_of_int (y * gridSize))
           else at2 (mask_g wg) y' x')"
    by (simp add: initializeMask_cell_val_def at2_put2 [OF Cons.prems(2) g p])
  from Cons.IH [OF x d] v show ?case by auto
qed

lemma mask_all_fold:
  assumes "set ys \<subseteq> {0..<gridHeight}" "dims (mask_g wg)" "inGrid y' x'"
  shows "dims (mask_g (fold (\<lambda>y. fold (\<lambda>x. initializeMask_cell_val y x) (for_range 0 gridWidth)) ys wg))
         \<and> at2 (mask_g (fold (\<lambda>y. fold (\<lambda>x. initializeMask_cell_val y x) (for_range 0 gridWidth)) ys wg)) y' x'
             = (if y' \<in> set ys
                then pointInShape (real_of_int (x' * gridSize)) (real_of_int (y' * gridSize))
                else at2 (mask_g wg) y' x')"
  using assms(1,2)
proof (induction ys arbitrary: wg)
  case Nil
  then show ?case by simp
next
  case (Cons a ys)
  have r: "set (for_range 0 gridWidth) \<subseteq> {0..<gridWidth}" by (auto simp add: in_for_range)
  have a: "0 \<le> a" "a < gridHeight" using Cons.prems(1) by simp_all
  have xin: "x' \<in> set (for_range 0 gridWidth)" using assms(3) by (simp add: in_for_range inGrid_def)
  note row = mask_row_fold [OF r a Cons.prems(2) assms(3)]
  have y: "set ys \<subseteq> {0..<gridHeight}" using Cons.prems(1) by simp
  from Cons.IH [OF y conjunct1 [OF row]] conjunct2 [OF row] xin show ?case by auto
qed

lemma NewWaveGrid_val_mask:
  assumes "inGrid y x"
  shows "at2 (mask_g NewWaveGrid_val) y x = pointInShape (real_of_int x) (real_of_int y)"
proof -
  have s: "set (for_range 0 gridHeight) \<subseteq> {0..<gridHeight}" by (auto simp add: in_for_range)
  have d: "dims (mask_g blankGrid)" using wf_blankGrid by (simp add: wf_grid_def)
  have "y \<in> set (for_range 0 gridHeight)" using assms by (simp add: in_for_range inGrid_def)
  with mask_all_fold [OF s d assms] show ?thesis
    by (simp add: NewWaveGrid_val_def initializeMask_val_def gridSize_def)
qed

lemma NewWaveGrid_val_current:
  "current NewWaveGrid_val = replicate (nat gridHeight) (replicate (nat gridWidth) 0)"
  by (simp add: NewWaveGrid_val_def initializeMask_val_current blankGrid_def)

lemma NewWaveGrid_val_previous:
  "previous NewWaveGrid_val = replicate (nat gridHeight) (replicate (nat gridWidth) 0)"
  by (simp add: NewWaveGrid_val_def initializeMask_val_previous blankGrid_def)

subsection \<open>Rounding to \<open>float64\<close>\<close>

text \<open>
  Once the power of two below \<open>x\<close> is known, the rounding of \<open>x\<close> is a computation
  with integers. 20, 40, \<open>10^17\<close> and \<open>2^58\<close> are \<open>float64\<close>; \<open>10^17 + 20\<close> lies between
  multiples of 16 and \<open>2^58 + 20\<close> between multiples of 64.
\<close>

lemma round_half_even_of_int: "round_half_even (real_of_int n) = n"
  by (simp add: round_half_even_def)

lemma float64_round_binade:
  assumes "0 < x" "2 powr real_of_int e \<le> x" "x < 2 powr real_of_int (e + 1)" "- 1022 \<le> e"
  shows "float64_round x
           = real_of_int (round_half_even (x / 2 powr real_of_int (e - 52)))
             * 2 powr real_of_int (e - 52)"
proof -
  have "\<lfloor>log 2 x\<rfloor> = e"
    using assms(1-3) by (simp add: floor_log_eq_powr_iff)
  with assms(1,4) show ?thesis by (simp add: float64_round_def Let_def max_def)
qed

lemma float64_round_20: "float64_round 20 = 20"
proof -
  have "float64_round 20
          = real_of_int (round_half_even (20 / 2 powr real_of_int (4 - 52)))
            * 2 powr real_of_int (4 - 52)"
    by (rule float64_round_binade) simp_all
  also have "20 / 2 powr real_of_int (4 - 52) = real_of_int (20 * 2 ^ 48)"
    by (simp add: powr_minus field_simps)
  finally show ?thesis
    by (simp only: round_half_even_of_int) (simp add: powr_minus)
qed

lemma float64_round_40: "float64_round 40 = 40"
proof -
  have "float64_round 40
          = real_of_int (round_half_even (40 / 2 powr real_of_int (5 - 52)))
            * 2 powr real_of_int (5 - 52)"
    by (rule float64_round_binade) simp_all
  also have "40 / 2 powr real_of_int (5 - 52) = real_of_int (40 * 2 ^ 47)"
    by (simp add: powr_minus field_simps)
  finally show ?thesis
    by (simp only: round_half_even_of_int) (simp add: powr_minus)
qed

lemma float64_round_1e17: "float64_round 100000000000000000 = 100000000000000000"
proof -
  have "float64_round 100000000000000000
          = real_of_int (round_half_even (100000000000000000 / 2 powr real_of_int (56 - 52)))
            * 2 powr real_of_int (56 - 52)"
    by (rule float64_round_binade) simp_all
  also have "100000000000000000 / 2 powr real_of_int (56 - 52) = real_of_int 6250000000000000"
    by simp
  finally show ?thesis
    by (simp only: round_half_even_of_int) simp
qed

lemma float64_round_1e17_20: "float64_round 100000000000000020 = 100000000000000016"
proof -
  have "float64_round 100000000000000020
          = real_of_int (round_half_even (100000000000000020 / 2 powr real_of_int (56 - 52)))
            * 2 powr real_of_int (56 - 52)"
    by (rule float64_round_binade) simp_all
  also have "round_half_even (100000000000000020 / 2 powr real_of_int (56 - 52))
               = 6250000000000001"
  proof -
    have f: "\<lfloor>100000000000000020 / (16::real)\<rfloor> = 6250000000000001" by simp
    show ?thesis by (simp add: round_half_even_def Let_def f)
  qed
  finally show ?thesis by simp
qed

lemma float64_round_2p58: "float64_round 288230376151711744 = 288230376151711744"
proof -
  have "float64_round 288230376151711744
          = real_of_int (round_half_even (288230376151711744 / 2 powr real_of_int (58 - 52)))
            * 2 powr real_of_int (58 - 52)"
    by (rule float64_round_binade) simp_all
  also have "288230376151711744 / 2 powr real_of_int (58 - 52) = real_of_int 4503599627370496"
    by simp
  finally show ?thesis
    by (simp only: round_half_even_of_int) simp
qed

lemma float64_round_2p58_20: "float64_round 288230376151711764 = 288230376151711744"
proof -
  have "float64_round 288230376151711764
          = real_of_int (round_half_even (288230376151711764 / 2 powr real_of_int (58 - 52)))
            * 2 powr real_of_int (58 - 52)"
    by (rule float64_round_binade) simp_all
  also have "round_half_even (288230376151711764 / 2 powr real_of_int (58 - 52))
               = 4503599627370496"
  proof -
    have f: "\<lfloor>288230376151711764 / (64::real)\<rfloor> = 4503599627370496" by simp
    show ?thesis by (simp add: round_half_even_def Let_def f)
  qed
  finally show ?thesis by simp
qed

lemma float64_add_0_20: "float64_add 0 20 = 20"
  by (simp add: float64_add_def float64_round_20)

lemma float64_add_20_20: "float64_add 20 20 = 40"
  by (simp add: float64_add_def float64_round_40)

lemma float64_add_1e17_20: "float64_add 100000000000000000 20 = 100000000000000016"
  by (simp add: float64_add_def float64_round_1e17_20)

lemma float64_add_2p58_20: "float64_add 288230376151711744 20 = 288230376151711744"
  by (simp add: float64_add_def float64_round_2p58_20)

subsection \<open>Runs and excitations\<close>

lemma act_eq:
  assumes "wf_grid wg"
  shows "act a wg = Some (act_val a wg) \<and> wf_grid (act_val a wg)"
  using assms by (cases a) (simp_all add: addWave_eq update_eq)

lemma run_eq: "run as = Some (run_val as) \<and> wf_grid (run_val as)"
proof -
  have "forEach act as NewWaveGrid_val = Some (fold act_val as NewWaveGrid_val)
        \<and> wf_grid (fold act_val as NewWaveGrid_val)"
    by (rule forEach_fold [where I = wf_grid]) (simp_all add: act_eq NewWaveGrid_eq)
  then show ?thesis by (simp add: run_def run_val_def NewWaveGrid_eq)
qed

lemma addWave_val_current:
  assumes "wf_grid wg" "inGrid y x"
  shows "at2 (current (addWave_val mx my wg)) y x
           = (if x = int_of_float (mx / real_of_int gridSize)
                 \<and> y = int_of_float (my / real_of_int gridSize)
                 \<and> at2 (mask_g wg) y x
              then float64_add (at2 (current wg) y x) 20
              else at2 (current wg) y x)"
proof (cases "inGrid (int_of_float (my / real_of_int gridSize)) (int_of_float (mx / real_of_int gridSize))
               \<and> at2 (mask_g wg) (int_of_float (my / real_of_int gridSize)) (int_of_float (mx / real_of_int gridSize))")
  case True
  have p: "0 \<le> y" "0 \<le> x" using assms(2) by (simp_all add: inGrid_def)
  have d: "dims (current wg)" using assms(1) by (simp add: wf_grid_def)
  from True show ?thesis
    by (auto simp add: addWave_val_def Let_def at2_put2 [OF d conjunct1 [OF True] p])
next
  case False
  with assms(2) show ?thesis by (auto simp add: addWave_val_def Let_def)
qed

lemma addWave_val_previous: "previous (addWave_val mx my wg) = previous wg"
  by (simp add: addWave_val_def Let_def)

lemma int_of_float_of_int: "int_of_float (real_of_int k / real_of_int gridSize) = k"
  by (simp add: int_of_float_def gridSize_def)

lemma mask_600_400: "at2 (mask_g NewWaveGrid_val) 400 600"
  by (simp add: NewWaveGrid_val_mask inGrid_def gridWidth_val gridHeight_val pointInShape_iff)

lemma act_val_mask: "mask_g (act_val a wg) = mask_g wg"
  by (cases a) (simp_all add: addWave_val_mask update_val_mask)

lemma run_val_mask: "mask_g (run_val as) = mask_g NewWaveGrid_val"
  unfolding run_val_def by (rule fold_same) (rule act_val_mask)

subsection \<open>What a step writes\<close>

lemma at2_put2_same: "dims g \<Longrightarrow> inGrid y x \<Longrightarrow> at2 (put2 g y x v) y x = v"
  by (simp add: at2_put2 inGrid_def)

lemma updateCell_val_current:
  assumes "wf_grid wg" "inGrid y0 x0" "0 \<le> y" "0 \<le> x"
  shows "at2 (current (updateCell_val y0 x0 wg)) y x
           = (if y = y0 \<and> x = x0 \<and> at2 (mask_g wg) y0 x0 then newHeight_val wg x0 y0
              else at2 (current wg) y x)"
proof -
  have d: "dims (current wg)" using assms(1) by (simp add: wf_grid_def)
  show ?thesis
    by (simp add: updateCell_val_def at2_put2 [OF d assms(2-4)] at2_put2_same [OF d assms(2)])
qed

lemma updateCell_val_previous:
  assumes "wf_grid wg" "inGrid y0 x0" "0 \<le> y" "0 \<le> x"
  shows "at2 (previous (updateCell_val y0 x0 wg)) y x
           = (if y = y0 \<and> x = x0 \<and> at2 (mask_g wg) y0 x0 then at2 (current wg) y0 x0
              else at2 (previous wg) y x)"
proof -
  have d: "dims (previous wg)" using assms(1) by (simp add: wf_grid_def)
  show ?thesis
    by (simp add: updateCell_val_def at2_put2 [OF d assms(2-4)] at2_put2_same [OF d assms(2)])
qed

lemma zeroRowsAt_val_current:
  assumes "dims (current wg)" "0 \<le> x0" "x0 < gridWidth" "inGrid y x"
  shows "at2 (current (zeroRowsAt_val x0 wg)) y x
           = (if (y = 0 \<or> y = gridHeight - 1) \<and> x = x0 then 0 else at2 (current wg) y x)"
proof -
  have a: "inGrid 0 x0" "inGrid (gridHeight - 1) x0"
    using assms(2,3) by (simp_all add: inGrid_def gridHeight_val)
  have p: "0 \<le> y" "0 \<le> x" using assms(4) by (simp_all add: inGrid_def)
  note d1 = dims_put2 [OF assms(1), of 0 x0 0]
  show ?thesis
    by (simp add: zeroRowsAt_val_def at2_put2 [OF d1 a(2) p] at2_put2 [OF assms(1) a(1) p]
        at2_put2_same [OF d1 a(2)] at2_put2_same [OF assms(1) a(1)])
qed

lemma zeroColsAt_val_current:
  assumes "dims (current wg)" "0 \<le> y0" "y0 < gridHeight" "inGrid y x"
  shows "at2 (current (zeroColsAt_val y0 wg)) y x
           = (if (x = 0 \<or> x = gridWidth - 1) \<and> y = y0 then 0 else at2 (current wg) y x)"
proof -
  have a: "inGrid y0 0" "inGrid y0 (gridWidth - 1)"
    using assms(2,3) by (simp_all add: inGrid_def gridWidth_val)
  have p: "0 \<le> y" "0 \<le> x" using assms(4) by (simp_all add: inGrid_def)
  note d1 = dims_put2 [OF assms(1), of y0 0 0]
  show ?thesis
    by (simp add: zeroColsAt_val_def at2_put2 [OF d1 a(2) p] at2_put2 [OF assms(1) a(1) p]
        at2_put2_same [OF d1 a(2)] at2_put2_same [OF assms(1) a(1)])
qed

lemma zeroRowsAt_val_dims: "dims (current wg) \<Longrightarrow> dims (current (zeroRowsAt_val x0 wg))"
  by (simp add: zeroRowsAt_val_def dims_put2)

lemma zeroColsAt_val_dims: "dims (current wg) \<Longrightarrow> dims (current (zeroColsAt_val y0 wg))"
  by (simp add: zeroColsAt_val_def dims_put2)

lemma zeroRows_fold:
  assumes "set xs \<subseteq> {0..<gridWidth}" "dims (current wg)" "inGrid y x"
  shows "dims (current (fold zeroRowsAt_val xs wg))
         \<and> at2 (current (fold zeroRowsAt_val xs wg)) y x
             = (if (y = 0 \<or> y = gridHeight - 1) \<and> x \<in> set xs then 0 else at2 (current wg) y x)"
  using assms(1,2)
proof (induction xs arbitrary: wg)
  case Nil
  then show ?case by simp
next
  case (Cons a xs)
  have a: "0 \<le> a" "a < gridWidth" using Cons.prems(1) by simp_all
  have x: "set xs \<subseteq> {0..<gridWidth}" using Cons.prems(1) by simp
  from Cons.IH [OF x zeroRowsAt_val_dims [OF Cons.prems(2)], of a]
    zeroRowsAt_val_current [OF Cons.prems(2) a assms(3)]
  show ?case by auto
qed

lemma zeroCols_fold:
  assumes "set ys \<subseteq> {0..<gridHeight}" "dims (current wg)" "inGrid y x"
  shows "dims (current (fold zeroColsAt_val ys wg))
         \<and> at2 (current (fold zeroColsAt_val ys wg)) y x
             = (if (x = 0 \<or> x = gridWidth - 1) \<and> y \<in> set ys then 0 else at2 (current wg) y x)"
  using assms(1,2)
proof (induction ys arbitrary: wg)
  case Nil
  then show ?case by simp
next
  case (Cons a ys)
  have a: "0 \<le> a" "a < gridHeight" using Cons.prems(1) by simp_all
  have y: "set ys \<subseteq> {0..<gridHeight}" using Cons.prems(1) by simp
  from Cons.IH [OF y zeroColsAt_val_dims [OF Cons.prems(2)], of a]
    zeroColsAt_val_current [OF Cons.prems(2) a assms(3)]
  show ?case by auto
qed

lemma update_val_current:
  assumes "wf_grid wg" "inGrid y x"
  shows "at2 (current (update_val wg)) y x
           = (if y = 0 \<or> y = gridHeight - 1 \<or> x = 0 \<or> x = gridWidth - 1 then 0
              else at2 (current (update_sweep_val wg)) y x)"
proof -
  have sx: "set (for_range 0 gridWidth) \<subseteq> {0..<gridWidth}" by (auto simp add: in_for_range)
  have sy: "set (for_range 0 gridHeight) \<subseteq> {0..<gridHeight}" by (auto simp add: in_for_range)
  have d: "dims (current (update_sweep_val wg))"
    using update_sweep_eq [OF assms(1)] by (simp add: wf_grid_def)
  have mx: "x \<in> set (for_range 0 gridWidth)" and my: "y \<in> set (for_range 0 gridHeight)"
    using assms(2) by (simp_all add: in_for_range inGrid_def)
  note r = zeroRows_fold [OF sx d assms(2)]
  note c = zeroCols_fold [OF sy conjunct1 [OF r] assms(2)]
  from r c mx my show ?thesis by (auto simp add: update_val_def)
qed

lemma update_val_previous: "previous (update_val wg) = previous (update_sweep_val wg)"
proof -
  have "previous (update_val wg)
          = previous (fold zeroRowsAt_val (for_range 0 gridWidth) (update_sweep_val wg))"
    unfolding update_val_def by (rule fold_same) (simp add: zeroColsAt_val_def)
  also have "\<dots> = previous (update_sweep_val wg)"
    by (rule fold_same) (simp add: zeroRowsAt_val_def)
  finally show ?thesis .
qed

subsection \<open>Cells outside the mask keep their height\<close>

lemma sweep_inv:
  assumes "\<And>y x s. 1 \<le> y \<Longrightarrow> y < gridHeight - 1 \<Longrightarrow> 1 \<le> x \<Longrightarrow> x < gridWidth - 1 \<Longrightarrow> I s
             \<Longrightarrow> I (updateCell_val y x s)"
    and "I wg"
  shows "I (update_sweep_val wg)"
  unfolding update_sweep_val_def
proof (rule fold_inv [where I = I])
  fix a s
  assume a: "a \<in> set (for_range 1 (gridHeight - 1))" and s: "I s"
  show "I (fold (\<lambda>x. updateCell_val a x) (for_range 1 (gridWidth - 1)) s)"
  proof (rule fold_inv [where I = I])
    fix b t
    assume "b \<in> set (for_range 1 (gridWidth - 1))" and "I t"
    with a show "I (updateCell_val a b t)" by (simp add: assms(1) in_for_range)
  qed (rule s)
qed (rule assms(2))

lemma interior_inGrid:
  "1 \<le> y \<Longrightarrow> y < gridHeight - 1 \<Longrightarrow> 1 \<le> x \<Longrightarrow> x < gridWidth - 1 \<Longrightarrow> inGrid y x"
  by (simp add: inGrid_def)

lemma sweep_current_unmasked:
  assumes "wf_grid wg" "inGrid y x" "\<not> at2 (mask_g wg) y x"
  shows "at2 (current (update_sweep_val wg)) y x = at2 (current wg) y x"
proof -
  have p: "0 \<le> y" "0 \<le> x" using assms(2) by (simp_all add: inGrid_def)
  have "wf_grid (update_sweep_val wg) \<and> mask_g (update_sweep_val wg) = mask_g wg
        \<and> at2 (current (update_sweep_val wg)) y x = at2 (current wg) y x"
  proof (rule sweep_inv
      [where I = "\<lambda>s. wf_grid s \<and> mask_g s = mask_g wg \<and> at2 (current s) y x = at2 (current wg) y x"])
    fix y0 x0 s
    assume i: "1 \<le> y0" "y0 < gridHeight - 1" "1 \<le> x0" "x0 < gridWidth - 1"
      and s: "wf_grid s \<and> mask_g s = mask_g wg \<and> at2 (current s) y x = at2 (current wg) y x"
    note g = interior_inGrid [OF i]
    from s assms(3) updateCell_val_current [OF conjunct1 [OF s] g p]
    show "wf_grid (updateCell_val y0 x0 s) \<and> mask_g (updateCell_val y0 x0 s) = mask_g wg
        \<and> at2 (current (updateCell_val y0 x0 s)) y x = at2 (current wg) y x"
      by (auto simp add: updateCell_val_wf updateCell_val_mask)
  qed (simp add: assms(1))
  then show ?thesis by simp
qed

lemma outside_zero_New: "outside_zero NewWaveGrid_val"
  by (simp add: outside_zero_def NewWaveGrid_val_current at2_replicate)

lemma outside_zero_addWave:
  assumes "wf_grid wg" "outside_zero wg"
  shows "outside_zero (addWave_val mx my wg)"
  using assms(2) by (simp add: outside_zero_def addWave_val_mask addWave_val_current [OF assms(1)])

lemma outside_zero_update:
  assumes "wf_grid wg" "outside_zero wg"
  shows "outside_zero (update_val wg)"
  using assms(2)
  by (simp add: outside_zero_def update_val_mask update_val_current [OF assms(1)]
      sweep_current_unmasked [OF assms(1)])

lemma outside_zero_run: "outside_zero (run_val as)"
proof -
  have "wf_grid (run_val as) \<and> outside_zero (run_val as)"
    unfolding run_val_def
  proof (rule fold_inv [where I = "\<lambda>s. wf_grid s \<and> outside_zero s"])
    fix a s
    assume "wf_grid s \<and> outside_zero s"
    then show "wf_grid (act_val a s) \<and> outside_zero (act_val a s)"
      using act_eq [of s a] by (cases a) (simp_all add: outside_zero_addWave outside_zero_update)
  qed (simp add: NewWaveGrid_eq outside_zero_New)
  then show ?thesis by simp
qed

lemma mask_400_100: "\<not> at2 (mask_g NewWaveGrid_val) 400 100"
  by (simp add: NewWaveGrid_val_mask inGrid_def gridWidth_val gridHeight_val pointInShape_iff)

subsection \<open>The grid after one excitation\<close>

lemma NewWaveGrid_val_mask_int:
  assumes "inGrid y x"
  shows "at2 (mask_g NewWaveGrid_val) y x \<longleftrightarrow> (x - 600) * (x - 600) + (y - 400) * (y - 400) < 22500"
proof -
  have "real_of_int ((x - 600) * (x - 600) + (y - 400) * (y - 400)) < real_of_int 22500
        \<longleftrightarrow> (x - 600) * (x - 600) + (y - 400) * (y - 400) < 22500"
    by (rule of_int_less_iff)
  then show ?thesis by (simp add: NewWaveGrid_val_mask [OF assms] pointInShape_iff)
qed

lemma NewWaveGrid_val_zero:
  "inGrid y x \<Longrightarrow> at2 (current NewWaveGrid_val) y x = 0"
  "inGrid y x \<Longrightarrow> at2 (previous NewWaveGrid_val) y x = 0"
  by (simp_all add: NewWaveGrid_val_current NewWaveGrid_val_previous at2_replicate)

lemma excited_current:
  assumes "inGrid y x" "at2 (mask_g NewWaveGrid_val) cy cx"
  shows "at2 (current (addWave_val (real_of_int cx) (real_of_int cy) NewWaveGrid_val)) y x
           = (if x = cx \<and> y = cy then 20 else 0)"
  using assms addWave_val_current [of NewWaveGrid_val y x "real_of_int cx" "real_of_int cy"]
  by (auto simp add: NewWaveGrid_eq int_of_float_of_int NewWaveGrid_val_zero float64_add_0_20)

lemma wf_excited: "wf_grid (addWave_val mx my NewWaveGrid_val)"
  using addWave_eq [of NewWaveGrid_val mx my] by (simp add: NewWaveGrid_eq)

lemma run_excited: "run [AddWave mx my] = Some (addWave_val mx my NewWaveGrid_val)"
  using run_eq [of "[AddWave mx my]"] by (simp add: run_val_def)

lemma grid_cells:
  "inGrid 400 600" "inGrid 400 601" "inGrid 251 583" "inGrid 251 584" "inGrid 250 583"
  "inGrid 251 582" "inGrid 252 583" "inGrid 250 584" "inGrid 251 585" "inGrid 252 584"
  by (simp_all add: inGrid_def gridWidth_val gridHeight_val)

lemma mask_cells:
  "at2 (mask_g NewWaveGrid_val) 400 601"
  "at2 (mask_g NewWaveGrid_val) 251 583"
  "at2 (mask_g NewWaveGrid_val) 251 584"
  "at2 (mask_g NewWaveGrid_val) 252 583"
  "at2 (mask_g NewWaveGrid_val) 251 585"
  "at2 (mask_g NewWaveGrid_val) 252 584"
  "\<not> at2 (mask_g NewWaveGrid_val) 250 583"
  "\<not> at2 (mask_g NewWaveGrid_val) 251 582"
  "\<not> at2 (mask_g NewWaveGrid_val) 250 584"
  by (simp_all add: NewWaveGrid_val_mask_int grid_cells)

lemma excited_583:
  "inGrid y x \<Longrightarrow> at2 (current (addWave_val 583 251 NewWaveGrid_val)) y x
                     = (if x = 583 \<and> y = 251 then 20 else 0)"
  using excited_current [of y x 251 583] by (simp add: mask_cells)

lemma excited_600:
  "inGrid y x \<Longrightarrow> at2 (current (addWave_val 600 400 NewWaveGrid_val)) y x
                     = (if x = 600 \<and> y = 400 then 20 else 0)"
  using excited_current [of y x 400 600] by (simp add: mask_600_400)

lemma excited_previous:
  "inGrid y x \<Longrightarrow> at2 (previous (addWave_val mx my NewWaveGrid_val)) y x = 0"
  by (simp add: addWave_val_previous NewWaveGrid_val_zero)

lemma grid_cells_centre:
  "inGrid 399 600" "inGrid 401 600" "inGrid 400 599"
  by (simp_all add: inGrid_def gridWidth_val gridHeight_val)

lemma mask_cells_centre:
  "at2 (mask_g NewWaveGrid_val) 399 600"
  "at2 (mask_g NewWaveGrid_val) 401 600"
  "at2 (mask_g NewWaveGrid_val) 400 599"
  by (simp_all add: NewWaveGrid_val_mask_int grid_cells_centre)

lemma lap_val_583: "cellLaplacian_val (addWave_val 583 251 NewWaveGrid_val) 583 251 = - 120"
  by (simp add: cellLaplacian_val_def nbTerm_def addWave_val_mask excited_583 grid_cells mask_cells)

lemma lap_val_600: "cellLaplacian_val (addWave_val 600 400 NewWaveGrid_val) 600 400 = - 80"
  by (simp add: cellLaplacian_val_def nbTerm_def addWave_val_mask excited_600 grid_cells
      grid_cells_centre mask_cells mask_cells_centre mask_600_400)

subsection \<open>A grid with a large height\<close>

lemma put2_put2:
  assumes "dims g" "inGrid y x"
  shows "put2 (put2 g y x a) y x b = put2 g y x b"
proof -
  have "nat y < length g" using assms by (simp add: dims_def inGrid_def)
  then show ?thesis by (simp add: put2_def)
qed

lemma wf_grid_with_height: "wf_grid (grid_with_height h)"
  using NewWaveGrid_eq by (simp add: grid_with_height_def wf_grid_def dims_put2)

lemma grid_with_height_mask: "at2 (mask_g (grid_with_height h)) 400 600"
  by (simp add: grid_with_height_def mask_600_400)

lemma grid_with_height_current: "at2 (current (grid_with_height h)) 400 600 = h"
  using NewWaveGrid_eq
  by (simp add: grid_with_height_def at2_put2_same wf_grid_def grid_cells)

lemma addWave_grid_with_height:
  "addWave 600 400 (grid_with_height h) = Some (grid_with_height (float64_add h 20))"
proof -
  have d: "dims (current NewWaveGrid_val)" using NewWaveGrid_eq by (simp add: wf_grid_def)
  have "addWave_val 600 400 (grid_with_height h) = grid_with_height (float64_add h 20)"
    using int_of_float_of_int [of 600] int_of_float_of_int [of 400]
    by (simp add: addWave_val_def Let_def grid_cells grid_with_height_mask
        grid_with_height_current)
      (simp add: grid_with_height_def put2_put2 [OF d grid_cells(1)])
  with addWave_eq [OF wf_grid_with_height, of 600 400 h] show ?thesis by simp
qed

subsection \<open>The sweep, cell by cell\<close>

text \<open>
  The sweep is split at a cell into the part done before it, the cell, and the part done
  after it. Neither part touches the cell, and the part before it touches neither the cell
  to the right nor the cell below. So the height that the sweep leaves in a masked interior
  cell is the cell rule applied to the old heights of the cell and of its right and lower
  neighbours and to the new heights of its upper and left neighbours (\<open>sweep_cell\<close>).
\<close>

lemma for_range_split:
  "lo \<le> i \<Longrightarrow> i < hi \<Longrightarrow> for_range lo hi = for_range lo i @ i # for_range (i + 1) hi"
  using upto_split3 [of lo i "hi - 1"] by (simp add: for_range_def)

lemma update_sweep_val_rows: "update_sweep_val wg = fold row_sweep_val (for_range 1 (gridHeight - 1)) wg"
  by (simp add: update_sweep_val_def row_sweep_val_def [abs_def])

lemma update_sweep_val_split:
  assumes "1 \<le> y" "y < gridHeight - 1" "1 \<le> x" "x < gridWidth - 1"
  shows "update_sweep_val wg =
           fold row_sweep_val (for_range (y + 1) (gridHeight - 1))
             (fold (\<lambda>x'. updateCell_val y x') (for_range (x + 1) (gridWidth - 1))
                (updateCell_val y x (sweep_before y x wg)))"
  by (simp add: update_sweep_val_rows for_range_split [OF assms(1,2)] row_sweep_val_def [of y]
      for_range_split [OF assms(3,4)] sweep_before_def)

lemma cells_frame:
  assumes "wf_grid s" "1 \<le> y0" "y0 < gridHeight - 1" "set xs \<subseteq> {1..<gridWidth - 1}"
    and "0 \<le> y" "0 \<le> x" "y \<noteq> y0 \<or> x \<notin> set xs"
  shows "wf_grid (fold (\<lambda>x'. updateCell_val y0 x') xs s)
         \<and> mask_g (fold (\<lambda>x'. updateCell_val y0 x') xs s) = mask_g s
         \<and> at2 (current (fold (\<lambda>x'. updateCell_val y0 x') xs s)) y x = at2 (current s) y x
         \<and> at2 (previous (fold (\<lambda>x'. updateCell_val y0 x') xs s)) y x = at2 (previous s) y x"
proof (rule fold_inv [where I = "\<lambda>t. wf_grid t \<and> mask_g t = mask_g s
      \<and> at2 (current t) y x = at2 (current s) y x \<and> at2 (previous t) y x = at2 (previous s) y x"])
  fix a t
  assume a: "a \<in> set xs"
    and t: "wf_grid t \<and> mask_g t = mask_g s
      \<and> at2 (current t) y x = at2 (current s) y x \<and> at2 (previous t) y x = at2 (previous s) y x"
  from a assms(4) have "1 \<le> a" "a < gridWidth - 1" by auto
  then have g: "inGrid y0 a" using assms(2,3) by (simp add: inGrid_def)
  from a assms(7) have n: "\<not> (y = y0 \<and> x = a)" by auto
  from t n updateCell_val_current [OF conjunct1 [OF t] g assms(5,6)]
    updateCell_val_previous [OF conjunct1 [OF t] g assms(5,6)]
  show "wf_grid (updateCell_val y0 a t) \<and> mask_g (updateCell_val y0 a t) = mask_g s
      \<and> at2 (current (updateCell_val y0 a t)) y x = at2 (current s) y x
      \<and> at2 (previous (updateCell_val y0 a t)) y x = at2 (previous s) y x"
    by (auto simp add: updateCell_val_wf updateCell_val_mask)
qed (simp add: assms(1))

lemma for_range_interior: "lo \<ge> 1 \<Longrightarrow> hi \<le> n \<Longrightarrow> set (for_range lo hi) \<subseteq> {1..<n}"
  by (auto simp add: in_for_range)

lemma rows_frame:
  assumes "wf_grid s" "set ys \<subseteq> {1..<gridHeight - 1}" "0 \<le> y" "0 \<le> x" "y \<notin> set ys"
  shows "wf_grid (fold row_sweep_val ys s)
         \<and> mask_g (fold row_sweep_val ys s) = mask_g s
         \<and> at2 (current (fold row_sweep_val ys s)) y x = at2 (current s) y x
         \<and> at2 (previous (fold row_sweep_val ys s)) y x = at2 (previous s) y x"
proof (rule fold_inv [where I = "\<lambda>t. wf_grid t \<and> mask_g t = mask_g s
      \<and> at2 (current t) y x = at2 (current s) y x \<and> at2 (previous t) y x = at2 (previous s) y x"])
  fix a t
  assume a: "a \<in> set ys"
    and t: "wf_grid t \<and> mask_g t = mask_g s
      \<and> at2 (current t) y x = at2 (current s) y x \<and> at2 (previous t) y x = at2 (previous s) y x"
  from a assms(2) have r: "1 \<le> a" "a < gridHeight - 1" by auto
  from a assms(5) have n: "y \<noteq> a \<or> x \<notin> set (for_range 1 (gridWidth - 1))" by auto
  have i: "set (for_range 1 (gridWidth - 1)) \<subseteq> {1..<gridWidth - 1}"
    by (rule for_range_interior) simp_all
  from t cells_frame [OF conjunct1 [OF t] r i assms(3,4) n]
  show "wf_grid (row_sweep_val a t) \<and> mask_g (row_sweep_val a t) = mask_g s
      \<and> at2 (current (row_sweep_val a t)) y x = at2 (current s) y x
      \<and> at2 (previous (row_sweep_val a t)) y x = at2 (previous s) y x"
    by (simp add: row_sweep_val_def)
qed (simp add: assms(1))

lemma sweep_before_frame:
  assumes "wf_grid wg" "1 \<le> y" "y < gridHeight - 1" "1 \<le> x" "x < gridWidth - 1"
    and "0 \<le> y'" "0 \<le> x'" "y' \<notin> set (for_range 1 y)" "y' \<noteq> y \<or> x' \<notin> set (for_range 1 x)"
  shows "wf_grid (sweep_before y x wg)
         \<and> mask_g (sweep_before y x wg) = mask_g wg
         \<and> at2 (current (sweep_before y x wg)) y' x' = at2 (current wg) y' x'
         \<and> at2 (previous (sweep_before y x wg)) y' x' = at2 (previous wg) y' x'"
proof -
  have ry: "set (for_range 1 y) \<subseteq> {1..<gridHeight - 1}"
    using assms(3) by (intro for_range_interior) simp_all
  have rx: "set (for_range 1 x) \<subseteq> {1..<gridWidth - 1}"
    using assms(5) by (intro for_range_interior) simp_all
  note r = rows_frame [OF assms(1) ry assms(6,7,8)]
  note c = cells_frame [OF conjunct1 [OF r] assms(2,3) rx assms(6,7,9)]
  from r c show ?thesis by (simp add: sweep_before_def)
qed

lemma sweep_after_frame:
  assumes "wf_grid wg" "1 \<le> y" "y < gridHeight - 1" "1 \<le> x" "x < gridWidth - 1"
    and "0 \<le> y'" "0 \<le> x'" "y' \<notin> set (for_range (y + 1) (gridHeight - 1))"
    and "y' \<noteq> y \<or> x' \<notin> set (for_range (x + 1) (gridWidth - 1))"
  shows "at2 (current (update_sweep_val wg)) y' x'
           = at2 (current (updateCell_val y x (sweep_before y x wg))) y' x'"
proof -
  have ry: "set (for_range (y + 1) (gridHeight - 1)) \<subseteq> {1..<gridHeight - 1}"
    using assms(2) by (intro for_range_interior) simp_all
  have rx: "set (for_range (x + 1) (gridWidth - 1)) \<subseteq> {1..<gridWidth - 1}"
    using assms(4) by (intro for_range_interior) simp_all
  have y0: "y \<notin> set (for_range 1 y)" and x0: "y \<noteq> y \<or> x \<notin> set (for_range 1 x)"
    by (simp_all add: in_for_range)
  have p: "0 \<le> y" "0 \<le> x" using assms(2,4) by simp_all
  note b = sweep_before_frame [OF assms(1-5) p y0 x0]
  have w: "wf_grid (updateCell_val y x (sweep_before y x wg))"
    using b by (simp add: updateCell_val_wf)
  note c = cells_frame [OF w assms(2,3) rx assms(6,7,9)]
  note r = rows_frame [OF conjunct1 [OF c] ry assms(6,7,8)]
  from r c show ?thesis by (simp add: update_sweep_val_split [OF assms(2-5)])
qed

lemma sweep_cell:
  assumes "wf_grid wg" "1 \<le> y" "y < gridHeight - 1" "1 \<le> x" "x < gridWidth - 1"
    and "at2 (mask_g wg) y x"
  shows "at2 (current (update_sweep_val wg)) y x
           = (2 * at2 (current wg) y x - at2 (previous wg) y x
              + waveSpeed * waveSpeed
                * ((if at2 (mask_g wg) (y - 1) x
                    then at2 (current (update_sweep_val wg)) (y - 1) x - at2 (current wg) y x
                    else - 2 * at2 (current wg) y x)
                   + (if at2 (mask_g wg) (y + 1) x
                      then at2 (current wg) (y + 1) x - at2 (current wg) y x
                      else - 2 * at2 (current wg) y x)
                   + (if at2 (mask_g wg) y (x - 1)
                      then at2 (current (update_sweep_val wg)) y (x - 1) - at2 (current wg) y x
                      else - 2 * at2 (current wg) y x)
                   + (if at2 (mask_g wg) y (x + 1)
                      then at2 (current wg) y (x + 1) - at2 (current wg) y x
                      else - 2 * at2 (current wg) y x)))
             * damping"
proof -
  let ?B = "sweep_before y x wg"
  have p: "0 \<le> y" "0 \<le> x" "0 \<le> y - 1" "0 \<le> x - 1" "0 \<le> y + 1" "0 \<le> x + 1"
    using assms(2,4) by simp_all
  have g: "inGrid y x" "inGrid (y - 1) x" "inGrid (y + 1) x" "inGrid y (x - 1)" "inGrid y (x + 1)"
    using assms(2-5) by (simp_all add: inGrid_def)
  have here: "wf_grid ?B" "mask_g ?B = mask_g wg"
    "at2 (current ?B) y x = at2 (current wg) y x"
    "at2 (previous ?B) y x = at2 (previous wg) y x"
    using sweep_before_frame [OF assms(1-5) p(1,2)] by (simp_all add: in_for_range)
  have down: "at2 (current ?B) (y + 1) x = at2 (current wg) (y + 1) x"
    using sweep_before_frame [OF assms(1-5) p(5,2)] by (simp add: in_for_range)
  have right: "at2 (current ?B) y (x + 1) = at2 (current wg) y (x + 1)"
    using sweep_before_frame [OF assms(1-5) p(1,6)] by (simp add: in_for_range)
  have up: "at2 (current (update_sweep_val wg)) (y - 1) x = at2 (current ?B) (y - 1) x"
    using sweep_after_frame [OF assms(1-5) p(3,2)]
      updateCell_val_current [OF here(1) g(1) p(3,2)] by (simp add: in_for_range)
  have left: "at2 (current (update_sweep_val wg)) y (x - 1) = at2 (current ?B) y (x - 1)"
    using sweep_after_frame [OF assms(1-5) p(1,4)]
      updateCell_val_current [OF here(1) g(1) p(1,4)] by (simp add: in_for_range)
  have "at2 (current (update_sweep_val wg)) y x = newHeight_val ?B x y"
    using sweep_after_frame [OF assms(1-5) p(1,2)]
      updateCell_val_current [OF here(1) g(1) p(1,2)] assms(6) here(2)
    by (simp add: in_for_range)
  also have "\<dots> = (2 * at2 (current wg) y x - at2 (previous wg) y x
              + waveSpeed * waveSpeed
                * ((if at2 (mask_g wg) (y - 1) x
                    then at2 (current (update_sweep_val wg)) (y - 1) x - at2 (current wg) y x
                    else - 2 * at2 (current wg) y x)
                   + (if at2 (mask_g wg) (y + 1) x
                      then at2 (current wg) (y + 1) x - at2 (current wg) y x
                      else - 2 * at2 (current wg) y x)
                   + (if at2 (mask_g wg) y (x - 1)
                      then at2 (current (update_sweep_val wg)) y (x - 1) - at2 (current wg) y x
                      else - 2 * at2 (current wg) y x)
                   + (if at2 (mask_g wg) y (x + 1)
                      then at2 (current wg) y (x + 1) - at2 (current wg) y x
                      else - 2 * at2 (current wg) y x)))
             * damping"
    using g by (simp add: newHeight_val_def cellLaplacian_val_def nbTerm_def here down right up left)
  finally show ?thesis .
qed

subsection \<open>One excitation and one step\<close>

lemma interior_cells:
  "1 \<le> (251::int)" "251 < gridHeight - 1" "1 \<le> (583::int)" "583 < gridWidth - 1"
  "1 \<le> (584::int)" "584 < gridWidth - 1"
  by (simp_all add: gridWidth_val gridHeight_val)

lemma swept_583:
  "at2 (current (update_sweep_val (addWave_val 583 251 NewWaveGrid_val))) 251 583 = 32.3375"
  using sweep_cell [OF wf_excited interior_cells(1-4), of 583 251]
  by (simp add: addWave_val_mask mask_cells excited_583 excited_previous grid_cells
      waveSpeed_def damping_def)

lemma swept_584:
  "at2 (current (update_sweep_val (addWave_val 583 251 NewWaveGrid_val))) 251 584
     = 514813 / 256000"
  using sweep_cell [OF wf_excited interior_cells(1,2,5,6), of 583 251]
  by (simp add: addWave_val_mask mask_cells excited_583 excited_previous grid_cells
      waveSpeed_def damping_def swept_583)

lemma stepped_583:
  "at2 (current (update_val (addWave_val 583 251 NewWaveGrid_val))) 251 583 = 32.3375"
  using update_val_current [OF wf_excited grid_cells(3), of 583 251]
  by (simp add: swept_583 gridWidth_val gridHeight_val)

lemma stepped_584:
  "at2 (current (update_val (addWave_val 583 251 NewWaveGrid_val))) 251 584 = 514813 / 256000"
  using update_val_current [OF wf_excited grid_cells(4), of 583 251]
  by (simp add: swept_584 gridWidth_val gridHeight_val)

lemma run_excited_stepped:
  "run [AddWave mx my, Update] = Some (update_val (addWave_val mx my NewWaveGrid_val))"
  using run_eq [of "[AddWave mx my, Update]"] by (simp add: run_val_def)

lemma settled_584:
  "settled_height (addWave_val 583 251 NewWaveGrid_val) 251 584 = Some 1.24375"
proof -
  let ?S = "addWave_val 583 251 NewWaveGrid_val"
  have p: "(0::int) \<le> 251" "(0::int) \<le> 584" by simp_all
  have w: "wf_grid (updateCell_val 251 584 ?S)" by (rule updateCell_val_wf [OF wf_excited])
  have "settled_height ?S 251 584 = Some (at2 (current (updateCell_val 251 584 ?S)) 251 584)"
    using updateCell_eq [OF wf_excited grid_cells(4), of 583 251] w
    by (simp add: settled_height_def get2_at2 wf_grid_def grid_cells)
  also have "\<dots> = Some (newHeight_val ?S 584 251)"
    using updateCell_val_current [OF wf_excited grid_cells(4) p, of 583 251]
    by (simp add: addWave_val_mask mask_cells)
  also have "\<dots> = Some 1.24375"
    by (simp add: newHeight_val_def cellLaplacian_val_def nbTerm_def addWave_val_mask
        excited_583 excited_previous grid_cells mask_cells waveSpeed_def damping_def)
  finally show ?thesis .
qed

lemma sumSquares_excited: "sumSquares (addWave_val 583 251 NewWaveGrid_val) = 400"
proof -
  have "sumSquares (addWave_val 583 251 NewWaveGrid_val)
          = (\<Sum>y\<in>{0..<gridHeight}. \<Sum>x\<in>{0..<gridWidth}.
               if y = 251 then (if x = 583 then 400 else 0) else (0::real))"
    unfolding sumSquares_def
    by (intro sum.cong refl) (simp add: inGrid_def excited_583 addWave_val_mask mask_cells)
  also have "\<dots> = (\<Sum>y\<in>{0..<gridHeight}. if y = 251 then 400 else (0::real))"
    by (intro sum.cong refl) (simp add: gridWidth_val)
  also have "\<dots> = 400" by (simp add: gridHeight_val)
  finally show ?thesis .
qed

lemma sumSquares_ge_cell:
  assumes "inGrid y x" "at2 (mask_g wg) y x"
  shows "(at2 (current wg) y x)\<^sup>2 \<le> sumSquares wg"
proof -
  let ?t = "\<lambda>y x. if at2 (mask_g wg) y x then (at2 (current wg) y x)\<^sup>2 else 0"
  have y: "y \<in> {0..<gridHeight}" and x: "x \<in> {0..<gridWidth}"
    using assms(1) by (simp_all add: inGrid_def)
  have "(at2 (current wg) y x)\<^sup>2 = ?t y x" using assms(2) by simp
  also have "\<dots> \<le> (\<Sum>x\<in>{0..<gridWidth}. ?t y x)"
    by (rule member_le_sum [OF x]) simp_all
  also have "\<dots> \<le> (\<Sum>y\<in>{0..<gridHeight}. \<Sum>x\<in>{0..<gridWidth}. ?t y x)"
    by (rule member_le_sum [OF y]) (simp_all add: sum_nonneg)
  finally show ?thesis by (simp add: sumSquares_def)
qed

lemma sumSquares_stepped: "1045 < sumSquares (update_val (addWave_val 583 251 NewWaveGrid_val))"
proof -
  let ?U = "update_val (addWave_val 583 251 NewWaveGrid_val)"
  have "at2 (mask_g ?U) 251 583" by (simp add: update_val_mask addWave_val_mask mask_cells)
  from sumSquares_ge_cell [OF grid_cells(3) this]
  have "(32.3375::real)\<^sup>2 \<le> sumSquares ?U" by (simp add: stepped_583)
  moreover have "(1045::real) < 32.3375\<^sup>2" by (simp add: power2_eq_square)
  ultimately show ?thesis by linarith
qed

subsection \<open>A grid at rest\<close>

lemma at_rest_updateCell:
  assumes "wf_grid wg" "at_rest wg" "inGrid y0 x0"
  shows "at_rest (updateCell_val y0 x0 wg)"
proof -
  have n: "nbTerm wg x0 y0 n = 0" for n
    using assms(2,3) by (cases n) (simp add: nbTerm_def at_rest_def)
  have h: "newHeight_val wg x0 y0 = 0"
    using assms(2,3) by (simp add: newHeight_val_def cellLaplacian_val_def n at_rest_def)
  have "at2 (current (updateCell_val y0 x0 wg)) y x = 0
        \<and> at2 (previous (updateCell_val y0 x0 wg)) y x = 0" if "inGrid y x" for y x
  proof -
    have p: "0 \<le> y" "0 \<le> x" using that by (simp_all add: inGrid_def)
    from updateCell_val_current [OF assms(1,3) p] updateCell_val_previous [OF assms(1,3) p]
      assms(2,3) that h
    show ?thesis by (simp add: at_rest_def)
  qed
  then show ?thesis by (simp add: at_rest_def)
qed

lemma at_rest_update:
  assumes "wf_grid wg" "at_rest wg"
  shows "at_rest (update_val wg)"
proof -
  have "wf_grid (update_sweep_val wg) \<and> at_rest (update_sweep_val wg)"
  proof (rule sweep_inv [where I = "\<lambda>s. wf_grid s \<and> at_rest s"])
    fix y x s
    assume "1 \<le> y" "y < gridHeight - 1" "1 \<le> x" "x < gridWidth - 1" "wf_grid s \<and> at_rest s"
    then show "wf_grid (updateCell_val y x s) \<and> at_rest (updateCell_val y x s)"
      by (simp add: updateCell_val_wf at_rest_updateCell interior_inGrid)
  qed (simp add: assms)
  then show ?thesis
    by (simp add: at_rest_def update_val_current [OF assms(1)] update_val_previous)
qed

lemma sumSquares_at_rest: "at_rest wg \<Longrightarrow> sumSquares wg = 0"
  unfolding sumSquares_def
  by (intro sum.neutral ballI) (simp add: at_rest_def inGrid_def)

subsection \<open>The step is linear\<close>

lemma fold_rel3:
  assumes "\<And>e s1 s2 s3. e \<in> set xs \<Longrightarrow> R s1 s2 s3 \<Longrightarrow> R (g e s1) (g e s2) (g e s3)"
    and "R s1 s2 s3"
  shows "R (fold g xs s1) (fold g xs s2) (fold g xs s3)"
  using assms by (induction xs arbitrary: s1 s2 s3) auto

lemma nbTerm_sum:
  assumes "is_sum a b c" "inGrid y0 x0"
  shows "nbTerm c x0 y0 n = nbTerm a x0 y0 n + nbTerm b x0 y0 n"
  using assms by (cases n) (simp add: nbTerm_def is_sum_def)

lemma newHeight_val_sum:
  assumes "is_sum a b c" "inGrid y0 x0"
  shows "newHeight_val c x0 y0 = newHeight_val a x0 y0 + newHeight_val b x0 y0"
  using assms
  by (simp add: newHeight_val_def cellLaplacian_val_def nbTerm_sum [OF assms] is_sum_def
      algebra_simps)

lemma is_sum_updateCell:
  assumes "is_sum a b c" "inGrid y0 x0"
  shows "is_sum (updateCell_val y0 x0 a) (updateCell_val y0 x0 b) (updateCell_val y0 x0 c)"
proof -
  have w: "wf_grid a" "wf_grid b" "wf_grid c" and m: "mask_g b = mask_g a" "mask_g c = mask_g a"
    using assms(1) by (simp_all add: is_sum_def)
  have "at2 (current (updateCell_val y0 x0 c)) y x
          = at2 (current (updateCell_val y0 x0 a)) y x + at2 (current (updateCell_val y0 x0 b)) y x
        \<and> at2 (previous (updateCell_val y0 x0 c)) y x
          = at2 (previous (updateCell_val y0 x0 a)) y x + at2 (previous (updateCell_val y0 x0 b)) y x"
    if "inGrid y x" for y x
  proof -
    have p: "0 \<le> y" "0 \<le> x" using that by (simp_all add: inGrid_def)
    from that assms show ?thesis
      by (simp add: updateCell_val_current [OF _ assms(2) p] updateCell_val_previous [OF _ assms(2) p]
          w m newHeight_val_sum [OF assms]) (simp add: is_sum_def)
  qed
  then show ?thesis
    using w m by (simp add: is_sum_def updateCell_val_wf updateCell_val_mask)
qed

lemma is_sum_sweep:
  assumes "is_sum a b c"
  shows "is_sum (update_sweep_val a) (update_sweep_val b) (update_sweep_val c)"
  unfolding update_sweep_val_def
proof (rule fold_rel3 [where R = is_sum])
  fix e s1 s2 s3
  assume e: "e \<in> set (for_range 1 (gridHeight - 1))" and s: "is_sum s1 s2 s3"
  show "is_sum (fold (\<lambda>x. updateCell_val e x) (for_range 1 (gridWidth - 1)) s1)
          (fold (\<lambda>x. updateCell_val e x) (for_range 1 (gridWidth - 1)) s2)
          (fold (\<lambda>x. updateCell_val e x) (for_range 1 (gridWidth - 1)) s3)"
  proof (rule fold_rel3 [where R = is_sum])
    fix d t1 t2 t3
    assume "d \<in> set (for_range 1 (gridWidth - 1))" and t: "is_sum t1 t2 t3"
    with e have "inGrid e d" by (simp add: in_for_range inGrid_def)
    from is_sum_updateCell [OF t this]
    show "is_sum (updateCell_val e d t1) (updateCell_val e d t2) (updateCell_val e d t3)" .
  qed (rule s)
qed (rule assms)

lemma is_sum_update:
  assumes "is_sum a b c"
  shows "is_sum (update_val a) (update_val b) (update_val c)"
proof -
  have w: "wf_grid a" "wf_grid b" "wf_grid c" and m: "mask_g b = mask_g a" "mask_g c = mask_g a"
    using assms by (simp_all add: is_sum_def)
  note s = is_sum_sweep [OF assms]
  from s w m show ?thesis
    by (simp add: is_sum_def update_eq update_val_mask update_val_current update_val_previous)
qed

lemma twice_excited_current:
  assumes "inGrid y x"
  shows "at2 (current (addWave_val bx by (addWave_val ax ay NewWaveGrid_val))) y x
           = at2 (current (addWave_val ax ay NewWaveGrid_val)) y x
             + at2 (current (addWave_val bx by NewWaveGrid_val)) y x"
proof -
  let ?N = "NewWaveGrid_val"
  have w: "wf_grid ?N" by (simp add: NewWaveGrid_eq)
  have z: "at2 (current ?N) y x = 0" by (simp add: NewWaveGrid_val_zero assms)
  have a: "at2 (current (addWave_val ax ay ?N)) y x
             = (if x = int_of_float (ax / real_of_int gridSize)
                   \<and> y = int_of_float (ay / real_of_int gridSize)
                   \<and> at2 (mask_g ?N) y x
                then 20 else 0)"
    by (rule addWave_val_current [OF w assms, of ax ay, unfolded z float64_add_0_20])
  have b: "at2 (current (addWave_val bx by ?N)) y x
             = (if x = int_of_float (bx / real_of_int gridSize)
                   \<and> y = int_of_float (by / real_of_int gridSize)
                   \<and> at2 (mask_g ?N) y x
                then 20 else 0)"
    by (rule addWave_val_current [OF w assms, of bx "by", unfolded z float64_add_0_20])
  have c: "at2 (current (addWave_val bx by (addWave_val ax ay ?N))) y x
             = (if x = int_of_float (bx / real_of_int gridSize)
                   \<and> y = int_of_float (by / real_of_int gridSize)
                   \<and> at2 (mask_g ?N) y x
                then float64_add (at2 (current (addWave_val ax ay ?N)) y x) 20
                else at2 (current (addWave_val ax ay ?N)) y x)"
    using addWave_val_current [OF wf_excited assms, of bx "by" ax ay]
    by (simp add: addWave_val_mask)
  show ?thesis
    unfolding c a b by (auto simp add: float64_add_0_20 float64_add_20_20)
qed

lemma is_sum_twice_excited:
  "is_sum (addWave_val ax ay NewWaveGrid_val) (addWave_val bx by NewWaveGrid_val)
     (addWave_val bx by (addWave_val ax ay NewWaveGrid_val))"
proof -
  have "wf_grid (addWave_val bx by (addWave_val ax ay NewWaveGrid_val))"
    using addWave_eq [OF wf_excited, of bx "by" ax ay] by simp
  then show ?thesis
    by (simp add: is_sum_def wf_excited addWave_val_mask addWave_val_previous
        NewWaveGrid_val_zero twice_excited_current)
qed

lemma run_two_excited_stepped:
  "run [AddWave ax ay, AddWave bx by, Update]
     = Some (update_val (addWave_val bx by (addWave_val ax ay NewWaveGrid_val)))"
  using run_eq [of "[AddWave ax ay, AddWave bx by, Update]"] by (simp add: run_val_def)

section \<open>The claims\<close>

subsection \<open>Excitation outside the lattice\<close>

text \<open>
  Claim C7. An excitation whose grid coordinates \<open>int(mx / gridSize)\<close>, \<open>int(my / gridSize)\<close>
  fall outside the lattice (\<open>x < 0\<close>, \<open>x \<ge> gridWidth\<close>, \<open>y < 0\<close> or \<open>y \<ge> gridHeight\<close>) is
  ignored: \<open>addWave\<close> returns without a panic and the grid it returns is the grid it was
  given, whatever that grid is.
\<close>

theorem addWave_out_of_range_ignored:
  assumes "int_of_float (mx / real_of_int gridSize) < 0
           \<or> int_of_float (mx / real_of_int gridSize) \<ge> gridWidth
           \<or> int_of_float (my / real_of_int gridSize) < 0
           \<or> int_of_float (my / real_of_int gridSize) \<ge> gridHeight"
  shows "addWave mx my wg = Some wg"
proof -
  from assms have "\<not> (int_of_float (mx / real_of_int gridSize) \<ge> 0
      \<and> int_of_float (mx / real_of_int gridSize) < gridWidth
      \<and> int_of_float (my / real_of_int gridSize) \<ge> 0
      \<and> int_of_float (my / real_of_int gridSize) < gridHeight)"
    by auto
  then show ?thesis by (simp add: addWave_def Let_def del: de_Morgan_conj)
qed

theorem addWave_out_of_range_ignored_witness:
  "int_of_float (1200 / real_of_int gridSize) \<ge> gridWidth
   \<and> addWave 1200 10 NewWaveGrid_val = Some NewWaveGrid_val"
proof -
  have h: "int_of_float (1200 / real_of_int gridSize) \<ge> gridWidth"
    using int_of_float_of_int [of 1200] by (simp add: gridWidth_val)
  then show ?thesis using addWave_out_of_range_ignored [of 1200 10 NewWaveGrid_val] by simp
qed

subsection \<open>Excitation of a cell inside the mask\<close>

text \<open>
  Claim C10, as stated: for every excitation whose grid coordinates are inside the lattice
  and name a cell of the mask, \<open>addWave\<close> adds exactly 20 to that cell. The sum is a sum of
  \<open>float64\<close>, and it is rounded. \<open>grid_with_height h\<close> is the constructed grid with \<open>h\<close> in
  the cell (600, 400), a cell of the mask. With \<open>h = 10^17\<close>, a \<open>float64\<close>, \<open>addWave(600, 400)\<close>
  stores \<open>10^17 + 16\<close>: the cell gains 16. With \<open>h = 2^58\<close> it stores \<open>2^58\<close> again: no cell
  of the grid changes.
\<close>

theorem addWave_exactly_20_counterexample:
  "wf_grid (grid_with_height 100000000000000000)
   \<and> get2 (mask_g (grid_with_height 100000000000000000)) 400 600 = Some True
   \<and> get2 (current (grid_with_height 100000000000000000)) 400 600 = Some 100000000000000000
   \<and> float64_round 100000000000000000 = 100000000000000000
   \<and> addWave 600 400 (grid_with_height 100000000000000000)
       = Some (grid_with_height 100000000000000016)
   \<and> get2 (current (grid_with_height 100000000000000016)) 400 600 = Some 100000000000000016
   \<and> (100000000000000016::real) \<noteq> 100000000000000000 + 20
   \<and> wf_grid (grid_with_height 288230376151711744)
   \<and> get2 (mask_g (grid_with_height 288230376151711744)) 400 600 = Some True
   \<and> get2 (current (grid_with_height 288230376151711744)) 400 600 = Some 288230376151711744
   \<and> float64_round 288230376151711744 = 288230376151711744
   \<and> addWave 600 400 (grid_with_height 288230376151711744)
       = Some (grid_with_height 288230376151711744)"
proof -
  have m: "get2 (mask_g (grid_with_height h)) 400 600 = Some True" for h
    using wf_grid_with_height [of h]
    by (simp add: get2_at2 wf_grid_def grid_cells grid_with_height_mask)
  have c: "get2 (current (grid_with_height h)) 400 600 = Some h" for h
    using wf_grid_with_height [of h]
    by (simp add: get2_at2 wf_grid_def grid_cells grid_with_height_current)
  have a: "addWave 600 400 (grid_with_height 100000000000000000)
             = Some (grid_with_height 100000000000000016)"
    using addWave_grid_with_height [of 100000000000000000] by (simp add: float64_add_1e17_20)
  have b: "addWave 600 400 (grid_with_height 288230376151711744)
             = Some (grid_with_height 288230376151711744)"
    using addWave_grid_with_height [of 288230376151711744] by (simp add: float64_add_2p58_20)
  from m c a b show ?thesis
    by (simp add: wf_grid_with_height float64_round_1e17 float64_round_2p58)
qed

text \<open>
  Claim C10, amended: for every excitation whose grid coordinates are inside the lattice and
  name a cell of the mask, \<open>addWave\<close> writes exactly one cell: it replaces
  \<open>current[gridY][gridX]\<close> by the \<open>float64\<close> sum of that height and 20, which is the height
  plus 20 rounded to the nearest \<open>float64\<close> (exactly the height plus 20 when that number is a
  \<open>float64\<close>, as on the constructed grid, where 0 becomes 20). Every other cell of
  \<open>current\<close>, all of \<open>previous\<close>, the mask and the shape are as they were. There is no
  radius of effect.
\<close>

theorem addWave_writes_one_cell:
  assumes "wf_grid wg"
    and "gridX = int_of_float (mx / real_of_int gridSize)"
    and "gridY = int_of_float (my / real_of_int gridSize)"
    and "0 \<le> gridX" "gridX < gridWidth" "0 \<le> gridY" "gridY < gridHeight"
    and "get2 (mask_g wg) gridY gridX = Some True"
  shows "\<exists>wg'. addWave mx my wg = Some wg' \<and> wf_grid wg'
           \<and> at2 (current wg') gridY gridX = float64_add (at2 (current wg) gridY gridX) 20
           \<and> (\<forall>y x. inGrid y x \<and> (y \<noteq> gridY \<or> x \<noteq> gridX)
                 \<longrightarrow> at2 (current wg') y x = at2 (current wg) y x)
           \<and> previous wg' = previous wg
           \<and> mask_g wg' = mask_g wg
           \<and> shape wg' = shape wg"
proof -
  have g: "inGrid gridY gridX" using assms(4-7) by (simp add: inGrid_def)
  have m: "at2 (mask_g wg) gridY gridX"
    using assms(1,8) g by (simp add: get2_at2 wf_grid_def)
  have a: "at2 (current (addWave_val mx my wg)) gridY gridX
             = float64_add (at2 (current wg) gridY gridX) 20"
    using addWave_val_current [OF assms(1) g, of mx my] m assms(2,3) by simp
  have b: "at2 (current (addWave_val mx my wg)) y x = at2 (current wg) y x"
    if "inGrid y x \<and> (y \<noteq> gridY \<or> x \<noteq> gridX)" for y x
    using addWave_val_current [OF assms(1), of y x mx my] that assms(2,3) by auto
  have c: "shape (addWave_val mx my wg) = shape wg" by (simp add: addWave_val_def Let_def)
  from a b c addWave_eq [OF assms(1), of mx my] show ?thesis
    by (simp add: addWave_val_previous addWave_val_mask)
qed

theorem addWave_writes_one_cell_witness:
  "wf_grid NewWaveGrid_val
   \<and> (600::int) = int_of_float (600 / real_of_int gridSize)
   \<and> (400::int) = int_of_float (400 / real_of_int gridSize)
   \<and> (0::int) \<le> 600 \<and> 600 < gridWidth \<and> (0::int) \<le> 400 \<and> 400 < gridHeight
   \<and> get2 (mask_g NewWaveGrid_val) 400 600 = Some True
   \<and> (\<exists>wg'. addWave 600 400 NewWaveGrid_val = Some wg'
        \<and> at2 (current wg') 400 600 = 20
        \<and> at2 (current wg') 400 601 = 0
        \<and> previous wg' = previous NewWaveGrid_val
        \<and> mask_g wg' = mask_g NewWaveGrid_val)"
proof -
  have w: "wf_grid NewWaveGrid_val" by (simp add: NewWaveGrid_eq)
  have x: "(600::int) = int_of_float (600 / real_of_int gridSize)"
    using int_of_float_of_int [of 600] by simp
  have y: "(400::int) = int_of_float (400 / real_of_int gridSize)"
    using int_of_float_of_int [of 400] by simp
  have r: "(0::int) \<le> 600" "600 < gridWidth" "(0::int) \<le> 400" "400 < gridHeight"
    by (simp_all add: gridWidth_val gridHeight_val)
  have g: "inGrid 400 600" "inGrid 400 601" by (simp_all add: inGrid_def gridWidth_val gridHeight_val)
  have m: "get2 (mask_g NewWaveGrid_val) 400 600 = Some True"
    using w g mask_600_400 by (simp add: get2_at2 wf_grid_def)
  have z: "at2 (current NewWaveGrid_val) 400 600 = 0" "at2 (current NewWaveGrid_val) 400 601 = 0"
    using g by (simp_all add: NewWaveGrid_val_current at2_replicate)
  from addWave_writes_one_cell [OF w x y r m] obtain wg' where
    "addWave 600 400 NewWaveGrid_val = Some wg'"
    "at2 (current wg') 400 600 = float64_add (at2 (current NewWaveGrid_val) 400 600) 20"
    "\<forall>y x. inGrid y x \<and> (y \<noteq> 400 \<or> x \<noteq> 600)
        \<longrightarrow> at2 (current wg') y x = at2 (current NewWaveGrid_val) y x"
    "previous wg' = previous NewWaveGrid_val" "mask_g wg' = mask_g NewWaveGrid_val"
    by blast
  with z g(2) have "addWave 600 400 NewWaveGrid_val = Some wg'
        \<and> at2 (current wg') 400 600 = 20
        \<and> at2 (current wg') 400 601 = 0
        \<and> previous wg' = previous NewWaveGrid_val
        \<and> mask_g wg' = mask_g NewWaveGrid_val" by (simp add: float64_add_0_20)
  then show ?thesis using w x y r m by blast
qed

subsection \<open>The border after a step\<close>

text \<open>
  Claim C4. After every call of \<open>update\<close> on a well-formed grid, whatever heights it held
  before, every cell of the outermost border (row 0, row \<open>gridHeight - 1\<close>, column 0,
  column \<open>gridWidth - 1\<close>) of \<open>current\<close> is exactly zero; the call does not panic.
\<close>

theorem update_border_zero:
  assumes "wf_grid wg" "inGrid y x"
    and "y = 0 \<or> y = gridHeight - 1 \<or> x = 0 \<or> x = gridWidth - 1"
  shows "\<exists>wg'. update wg = Some wg' \<and> get2 (current wg') y x = Some 0"
proof -
  note u = update_eq [OF assms(1)]
  have "get2 (current (update_val wg)) y x = Some (at2 (current (update_val wg)) y x)"
    using u assms(2) by (simp add: get2_at2 wf_grid_def)
  also have "\<dots> = Some 0" using update_val_current [OF assms(1,2)] assms(3) by simp
  finally show ?thesis using u by simp
qed

theorem update_border_zero_witness:
  "wf_grid (NewWaveGrid_val\<lparr>current := replicate (nat gridHeight) (replicate (nat gridWidth) 7)\<rparr>)
   \<and> inGrid 0 5
   \<and> (0 = (0::int) \<or> 0 = gridHeight - 1 \<or> 5 = (0::int) \<or> 5 = gridWidth - 1)
   \<and> at2 (current (NewWaveGrid_val\<lparr>current := replicate (nat gridHeight) (replicate (nat gridWidth) 7)\<rparr>)) 0 5 = 7
   \<and> (\<exists>wg'. update (NewWaveGrid_val\<lparr>current := replicate (nat gridHeight) (replicate (nat gridWidth) 7)\<rparr>) = Some wg'
          \<and> get2 (current wg') 0 5 = Some 0)"
proof -
  let ?wg = "NewWaveGrid_val\<lparr>current := replicate (nat gridHeight) (replicate (nat gridWidth) 7)\<rparr>"
  have w: "wf_grid ?wg" using NewWaveGrid_eq by (simp add: wf_grid_def dims_replicate)
  have g: "inGrid 0 5" by (simp add: inGrid_def gridWidth_val gridHeight_val)
  have b: "0 = (0::int) \<or> 0 = gridHeight - 1 \<or> 5 = (0::int) \<or> 5 = gridWidth - 1" by simp
  have v: "at2 (current ?wg) 0 5 = 7" using g by (simp add: at2_replicate)
  from w g b v update_border_zero [OF w g b] show ?thesis by simp
qed

subsection \<open>Cells outside the mask\<close>

text \<open>
  Claim C3. Starting from the constructed grid, after any sequence of \<open>addWave\<close> and
  \<open>update\<close> calls every cell whose mask entry is false has height exactly zero in
  \<open>current\<close>: \<open>addWave\<close> writes only to masked cells, the sweep of \<open>update\<close> skips
  unmasked cells, and the border loops write zero.
\<close>

theorem outside_mask_stays_zero:
  "\<exists>wg. run as = Some wg
     \<and> (\<forall>y x. inGrid y x \<longrightarrow> get2 (mask_g wg) y x = Some False
            \<longrightarrow> get2 (current wg) y x = Some 0)"
proof -
  have "get2 (current (run_val as)) y x = Some 0"
    if "inGrid y x" "get2 (mask_g (run_val as)) y x = Some False" for y x
    using that run_eq [of as] outside_zero_run [of as]
    by (simp add: get2_at2 wf_grid_def outside_zero_def)
  then show ?thesis using run_eq [of as] by simp
qed

theorem outside_mask_stays_zero_witness:
  "inGrid 400 100
   \<and> (\<exists>wg. run [AddWave 600 400, Update, AddWave 100 400, Update] = Some wg
          \<and> get2 (mask_g wg) 400 100 = Some False
          \<and> get2 (current wg) 400 100 = Some 0)"
proof -
  let ?as = "[AddWave 600 400, Update, AddWave 100 400, Update]"
  have g: "inGrid 400 100" by (simp add: inGrid_def gridWidth_val gridHeight_val)
  have m: "get2 (mask_g (run_val ?as)) 400 100 = Some False"
    using run_eq [of ?as] g mask_400_100 by (simp add: get2_at2 wf_grid_def run_val_mask)
  from outside_mask_stays_zero [of ?as] obtain wg where
    r: "run ?as = Some wg" and
    z: "\<forall>y x. inGrid y x \<longrightarrow> get2 (mask_g wg) y x = Some False \<longrightarrow> get2 (current wg) y x = Some 0"
    by blast
  from r have e: "wg = run_val ?as" using run_eq [of ?as] by simp
  from z g m e have "get2 (current wg) 400 100 = Some 0" by blast
  with g r m e show ?thesis by blast
qed

subsection \<open>The amount an excitation adds\<close>

text \<open>
  Claim C5, as stated: an excitation adds \<open>strength * (1 - d/radius)\<^sup>2\<close> to every masked
  cell within the radius of the centre. \<open>addWave\<close> has no radius and no falloff. With the
  strength 20 of the code and a radius of 8 cells, the cell (601, 400) is inside the mask and
  at distance 1 from the centre (600, 400): the claim asks for 15.3125 there, and the code
  leaves the cell at 0. The same happens for every radius above 1.
\<close>

theorem excitation_falloff_counterexample:
  "run [] = Some NewWaveGrid_val
   \<and> run [AddWave 600 400] = Some (addWave_val 600 400 NewWaveGrid_val)
   \<and> at2 (mask_g NewWaveGrid_val) 400 601
   \<and> sqrt ((601 - 600)\<^sup>2 + (400 - 400)\<^sup>2) < (8::real)
   \<and> spec_contribution 20 8 (sqrt ((601 - 600)\<^sup>2 + (400 - 400)\<^sup>2)) = 15.3125
   \<and> at2 (current NewWaveGrid_val) 400 601 = 0
   \<and> at2 (current (addWave_val 600 400 NewWaveGrid_val)) 400 601 = 0
   \<and> at2 (current (addWave_val 600 400 NewWaveGrid_val)) 400 601
       \<noteq> at2 (current NewWaveGrid_val) 400 601
           + spec_contribution 20 8 (sqrt ((601 - 600)\<^sup>2 + (400 - 400)\<^sup>2))"
proof -
  have r0: "run [] = Some NewWaveGrid_val" using run_eq [of "[]"] by (simp add: run_val_def)
  have c: "spec_contribution 20 8 (sqrt ((601 - 600)\<^sup>2 + (400 - 400)\<^sup>2)) = 15.3125"
    by (simp add: spec_contribution_def power2_eq_square)
  have z: "at2 (current (addWave_val 600 400 NewWaveGrid_val)) 400 601 = 0"
    using excited_current [of 400 601 400 600] by (simp add: grid_cells mask_600_400)
  from r0 c z run_excited [of 600 400] show ?thesis
    by (simp add: mask_cells NewWaveGrid_val_zero grid_cells)
qed

text \<open>
  Claim C5, amended: an excitation at \<open>(mx, my)\<close> changes at most the one cell
  \<open>(int(mx / gridSize), int(my / gridSize))\<close>. When that cell is in the lattice and in the
  mask, its height becomes the \<open>float64\<close> sum of its height and 20: the amount of the falloff
  formula at distance 0 with strength 20, up to the rounding of the sum (on the constructed
  grid the cell goes from 0 to exactly 20). Every other cell keeps its height: cells outside
  the mask, and cells near the centre as well.
\<close>

theorem addWave_adds_at_centre_only:
  assumes "wf_grid wg" "inGrid y x"
  shows "\<exists>wg'. addWave mx my wg = Some wg' \<and> wf_grid wg'
           \<and> at2 (current wg') y x
               = (if x = int_of_float (mx / real_of_int gridSize)
                     \<and> y = int_of_float (my / real_of_int gridSize)
                     \<and> at2 (mask_g wg) y x
                  then float64_add (at2 (current wg) y x) 20
                  else at2 (current wg) y x)"
  using addWave_eq [OF assms(1), of mx my] addWave_val_current [OF assms, of mx my] by simp

theorem addWave_adds_at_centre_only_witness:
  "wf_grid NewWaveGrid_val \<and> inGrid 400 600 \<and> inGrid 400 601
   \<and> (\<exists>wg'. addWave 600 400 NewWaveGrid_val = Some wg'
          \<and> at2 (current wg') 400 600 = 20
          \<and> at2 (current wg') 400 601 = at2 (current NewWaveGrid_val) 400 601)"
proof -
  have w: "wf_grid NewWaveGrid_val" by (simp add: NewWaveGrid_eq)
  have e: "int_of_float (600 / real_of_int gridSize) = 600"
    "int_of_float (400 / real_of_int gridSize) = 400"
    using int_of_float_of_int [of 600] int_of_float_of_int [of 400] by simp_all
  from addWave_adds_at_centre_only [OF w grid_cells(1), of 600 400]
    addWave_adds_at_centre_only [OF w grid_cells(2), of 600 400]
  have "\<exists>wg'. addWave 600 400 NewWaveGrid_val = Some wg'
          \<and> at2 (current wg') 400 600 = 20
          \<and> at2 (current wg') 400 601 = at2 (current NewWaveGrid_val) 400 601"
    by (auto simp add: e mask_600_400 NewWaveGrid_val_zero grid_cells float64_add_0_20)
  with w grid_cells(1,2) show ?thesis by simp
qed

subsection \<open>The mask\<close>

text \<open>
  Claim C9. The mask is computed once, by \<open>NewWaveGrid\<close>: the entry of cell \<open>(x, y)\<close> is true
  exactly when the cell's position is strictly inside the circle of radius 150 around
  (600, 400), that is when its distance to the centre is below 150. Afterwards the mask is
  never written: \<open>addWave\<close> and \<open>update\<close> return the mask they were given, and so the mask
  after any sequence of calls is the constructed one.
\<close>

theorem mask_computed_once:
  "(\<exists>wg. NewWaveGrid = Some wg
      \<and> (\<forall>y x. inGrid y x \<longrightarrow>
           get2 (mask_g wg) y x
             = Some (sqrt ((real_of_int (x * gridSize) - 600)\<^sup>2
                           + (real_of_int (y * gridSize) - 400)\<^sup>2) < 150)))
   \<and> (wf_grid wg \<longrightarrow> (\<exists>wg'. addWave mx my wg = Some wg' \<and> mask_g wg' = mask_g wg)
                     \<and> (\<exists>wg'. update wg = Some wg' \<and> mask_g wg' = mask_g wg))
   \<and> (\<exists>wg0 wgn. NewWaveGrid = Some wg0 \<and> run as = Some wgn \<and> mask_g wgn = mask_g wg0)"
proof -
  have "get2 (mask_g NewWaveGrid_val) y x
          = Some (sqrt ((real_of_int (x * gridSize) - 600)\<^sup>2
                        + (real_of_int (y * gridSize) - 400)\<^sup>2) < 150)"
    if "inGrid y x" for y x
    using that NewWaveGrid_eq NewWaveGrid_val_mask [OF that]
    by (simp add: get2_at2 wf_grid_def pointInShape_def screenWidth_def screenHeight_def
        gridSize_def power2_eq_square Let_def)
  then have a: "\<exists>wg. NewWaveGrid = Some wg
      \<and> (\<forall>y x. inGrid y x \<longrightarrow>
           get2 (mask_g wg) y x
             = Some (sqrt ((real_of_int (x * gridSize) - 600)\<^sup>2
                           + (real_of_int (y * gridSize) - 400)\<^sup>2) < 150))"
    using NewWaveGrid_eq by blast
  have b: "wf_grid wg \<longrightarrow> (\<exists>wg'. addWave mx my wg = Some wg' \<and> mask_g wg' = mask_g wg)
                     \<and> (\<exists>wg'. update wg = Some wg' \<and> mask_g wg' = mask_g wg)"
    using addWave_eq [of wg mx my] update_eq [of wg]
    by (simp add: addWave_val_mask update_val_mask)
  have c: "\<exists>wg0 wgn. NewWaveGrid = Some wg0 \<and> run as = Some wgn \<and> mask_g wgn = mask_g wg0"
    using NewWaveGrid_eq run_eq [of as] run_val_mask [of as] by auto
  from a b c show ?thesis by blast
qed

theorem mask_computed_once_witness:
  "wf_grid (addWave_val 600 400 NewWaveGrid_val)
   \<and> inGrid 400 601 \<and> inGrid 250 583
   \<and> (\<exists>wg. NewWaveGrid = Some wg
        \<and> get2 (mask_g wg) 400 601 = Some True \<and> get2 (mask_g wg) 250 583 = Some False)
   \<and> (\<exists>wg'. addWave 583 251 (addWave_val 600 400 NewWaveGrid_val) = Some wg'
        \<and> mask_g wg' = mask_g (addWave_val 600 400 NewWaveGrid_val))
   \<and> (\<exists>wg'. update (addWave_val 600 400 NewWaveGrid_val) = Some wg'
        \<and> mask_g wg' = mask_g (addWave_val 600 400 NewWaveGrid_val))
   \<and> (\<exists>wg0 wgn. NewWaveGrid = Some wg0 \<and> run [AddWave 600 400, Update] = Some wgn
        \<and> mask_g wgn = mask_g wg0)"
proof -
  let ?wg = "addWave_val 600 400 NewWaveGrid_val"
  note t = mask_computed_once [of ?wg 583 251 "[AddWave 600 400, Update]"]
  have m: "get2 (mask_g NewWaveGrid_val) 400 601 = Some True"
    "get2 (mask_g NewWaveGrid_val) 250 583 = Some False"
    using NewWaveGrid_eq by (simp_all add: get2_at2 wf_grid_def grid_cells mask_cells)
  from t m wf_excited [of 600 400] show ?thesis
    by (simp add: NewWaveGrid_eq grid_cells)
qed

subsection \<open>The Laplacian of a cell\<close>

text \<open>
  Claim C2, as stated: a neighbour inside the mask contributes
  \<open>height[neighbour] - height[cell]\<close>, a neighbour outside the mask or the lattice contributes
  \<open>- height[cell]\<close>, and the sum is divided by the number of neighbours before it is scaled
  by \<open>c\<^sup>2\<close>. \<open>spec_laplacian\<close> is that formula. The code never divides, and a neighbour outside
  the mask is counted in \<open>numNeighbors\<close> after \<open>- height[cell]\<close> was already added for it.
  After one excitation at (600, 400), where all four neighbours are in the mask, the code's
  Laplacian of that cell is -80 and the claim's is -20. After one excitation at (583, 251),
  whose upper and left neighbours are outside the mask, the code's is -120 and the claim's
  is -20 (-80 before the division).
\<close>

theorem laplacian_mean_counterexample:
  "run [AddWave 600 400] = Some (addWave_val 600 400 NewWaveGrid_val)
   \<and> cellLaplacian (addWave_val 600 400 NewWaveGrid_val) 600 400 = Some (- 80)
   \<and> spec_laplacian (addWave_val 600 400 NewWaveGrid_val) 600 400 = - 20
   \<and> run [AddWave 583 251] = Some (addWave_val 583 251 NewWaveGrid_val)
   \<and> cellLaplacian (addWave_val 583 251 NewWaveGrid_val) 583 251 = Some (- 120)
   \<and> spec_laplacian (addWave_val 583 251 NewWaveGrid_val) 583 251 = - 20"
proof -
  have a: "cellLaplacian (addWave_val 600 400 NewWaveGrid_val) 600 400 = Some (- 80)"
    using cellLaplacian_eq [OF wf_excited grid_cells(1), of 600 400] by (simp add: lap_val_600)
  have b: "spec_laplacian (addWave_val 600 400 NewWaveGrid_val) 600 400 = - 20"
    by (simp add: spec_laplacian_def spec_nbTerm_def addWave_val_mask excited_600 grid_cells
        grid_cells_centre mask_cells mask_cells_centre mask_600_400)
  have c: "cellLaplacian (addWave_val 583 251 NewWaveGrid_val) 583 251 = Some (- 120)"
    using cellLaplacian_eq [OF wf_excited grid_cells(3), of 583 251] by (simp add: lap_val_583)
  have d: "spec_laplacian (addWave_val 583 251 NewWaveGrid_val) 583 251 = - 20"
    by (simp add: spec_laplacian_def spec_nbTerm_def addWave_val_mask excited_583 grid_cells
        mask_cells)
  from a b c d run_excited [of 600 400] run_excited [of 583 251] show ?thesis by simp
qed

text \<open>
  Claim C2, amended: in the Laplacian of a cell of a well-formed grid, each of the four
  axis-aligned neighbours that lies in the lattice contributes
  \<open>height[neighbour] - height[cell]\<close> when it is inside the mask and \<open>- 2 * height[cell]\<close> when
  it is outside the mask; a neighbour outside the lattice contributes nothing (the sweep never
  visits a cell that has one). The sum is not divided by the number of neighbours: the new
  height of a masked cell is \<open>(2 * current - previous + c\<^sup>2 * sum) * damping\<close>.
  \<open>nbTerm\<close> is the contribution of one neighbour.
\<close>

theorem laplacian_as_computed:
  assumes "wf_grid wg" "inGrid y x"
  shows "cellLaplacian wg x y
           = Some (nbTerm wg x y (0, -1) + nbTerm wg x y (0, 1)
                   + nbTerm wg x y (-1, 0) + nbTerm wg x y (1, 0))
         \<and> (get2 (mask_g wg) y x = Some True \<longrightarrow>
              (\<exists>wg'. updateCell y x wg = Some wg'
                 \<and> get2 (current wg') y x
                     = Some ((2 * at2 (current wg) y x - at2 (previous wg) y x
                              + waveSpeed * waveSpeed
                                * (nbTerm wg x y (0, -1) + nbTerm wg x y (0, 1)
                                   + nbTerm wg x y (-1, 0) + nbTerm wg x y (1, 0)))
                             * damping)))"
proof -
  have p: "0 \<le> y" "0 \<le> x" using assms(2) by (simp_all add: inGrid_def)
  have w: "wf_grid (updateCell_val y x wg)" by (rule updateCell_val_wf [OF assms(1)])
  have g: "get2 (current (updateCell_val y x wg)) y x
             = Some (at2 (current (updateCell_val y x wg)) y x)"
    using w assms(2) by (simp add: get2_at2 wf_grid_def)
  have m: "get2 (mask_g wg) y x = Some (at2 (mask_g wg) y x)"
    using assms by (simp add: get2_at2 wf_grid_def)
  from g m updateCell_val_current [OF assms p] cellLaplacian_eq [OF assms] updateCell_eq [OF assms]
  show ?thesis by (simp add: newHeight_val_def cellLaplacian_val_def)
qed

theorem laplacian_as_computed_witness:
  "wf_grid (addWave_val 583 251 NewWaveGrid_val) \<and> inGrid 251 583
   \<and> get2 (mask_g (addWave_val 583 251 NewWaveGrid_val)) 251 583 = Some True
   \<and> nbTerm (addWave_val 583 251 NewWaveGrid_val) 583 251 (0, -1) = - 40
   \<and> nbTerm (addWave_val 583 251 NewWaveGrid_val) 583 251 (0, 1) = - 20
   \<and> nbTerm (addWave_val 583 251 NewWaveGrid_val) 583 251 (-1, 0) = - 40
   \<and> nbTerm (addWave_val 583 251 NewWaveGrid_val) 583 251 (1, 0) = - 20
   \<and> cellLaplacian (addWave_val 583 251 NewWaveGrid_val) 583 251 = Some (- 120)
   \<and> (\<exists>wg'. updateCell 251 583 (addWave_val 583 251 NewWaveGrid_val) = Some wg'
          \<and> get2 (current wg') 251 583 = Some 32.3375)"
proof -
  let ?wg = "addWave_val 583 251 NewWaveGrid_val"
  have m: "get2 (mask_g ?wg) 251 583 = Some True"
    using NewWaveGrid_eq
    by (simp add: addWave_val_mask get2_at2 wf_grid_def grid_cells mask_cells)
  have n: "nbTerm ?wg 583 251 (0, -1) = - 40" "nbTerm ?wg 583 251 (0, 1) = - 20"
    "nbTerm ?wg 583 251 (-1, 0) = - 40" "nbTerm ?wg 583 251 (1, 0) = - 20"
    by (simp_all add: nbTerm_def addWave_val_mask excited_583 grid_cells mask_cells)
  from laplacian_as_computed [OF wf_excited grid_cells(3), of 583 251] m n
  show ?thesis
    by (simp add: wf_excited grid_cells excited_583 excited_previous waveSpeed_def damping_def)
qed

subsection \<open>Reads during the sweep\<close>

text \<open>
  Claim C1: every neighbour height read by the sweep of \<open>update\<close> is the height the grid held
  before the step. The code updates \<open>current\<close> in place, row by row and left to right, so the
  upper and the left neighbour of a cell have already been rewritten when the cell is
  computed. The state after \<open>addWave(583, 251)\<close> on the constructed grid shows it: cell
  (584, 251) is inside the mask, all heights are 0 except 20 at its left neighbour (583, 251).
  From the heights before the step the cell rule gives (584, 251) the value
  \<open>0.0625 * 20 * 0.995 = 1.24375\<close> (\<open>settled_height\<close> applies the code's own cell rule to the
  grid before the step). \<open>update\<close> writes \<open>514813 / 256000\<close>, about 2.011, because it reads
  32.3375 at (583, 251), the value written there a moment earlier in the same sweep.
\<close>

theorem update_reads_rewritten_neighbour:
  "run [AddWave 583 251] = Some (addWave_val 583 251 NewWaveGrid_val)
   \<and> update (addWave_val 583 251 NewWaveGrid_val)
       = Some (update_val (addWave_val 583 251 NewWaveGrid_val))
   \<and> get2 (mask_g (addWave_val 583 251 NewWaveGrid_val)) 251 584 = Some True
   \<and> get2 (current (addWave_val 583 251 NewWaveGrid_val)) 251 583 = Some 20
   \<and> get2 (current (update_val (addWave_val 583 251 NewWaveGrid_val))) 251 583 = Some 32.3375
   \<and> settled_height (addWave_val 583 251 NewWaveGrid_val) 251 584 = Some 1.24375
   \<and> get2 (current (update_val (addWave_val 583 251 NewWaveGrid_val))) 251 584
       = Some (514813 / 256000)"
proof -
  let ?S = "addWave_val 583 251 NewWaveGrid_val"
  have u: "update ?S = Some (update_val ?S)" "wf_grid (update_val ?S)"
    using update_eq [OF wf_excited, of 583 251] by simp_all
  have m: "get2 (mask_g ?S) 251 584 = Some True"
    using wf_excited [of 583 251]
    by (simp add: get2_at2 wf_grid_def grid_cells addWave_val_mask mask_cells)
  have c: "get2 (current ?S) 251 583 = Some 20"
    using wf_excited [of 583 251] by (simp add: get2_at2 wf_grid_def grid_cells excited_583)
  have a: "get2 (current (update_val ?S)) 251 583 = Some 32.3375"
    using u(2) by (simp add: get2_at2 wf_grid_def grid_cells stepped_583)
  have b: "get2 (current (update_val ?S)) 251 584 = Some (514813 / 256000)"
    using u(2) by (simp add: get2_at2 wf_grid_def grid_cells stepped_584)
  from u(1) m c a b settled_584 run_excited [of 583 251] show ?thesis by simp
qed

subsection \<open>The sum of squared heights\<close>

text \<open>
  Claim C8, as stated: with a damping factor below 1 and no excitation between steps, the sum
  of the squared heights of the masked cells never grows from one step to the next, in any
  reachable state. \<open>sumSquares\<close> is that sum. The state right after \<open>addWave(583, 251)\<close> on the
  constructed grid is reachable; its sum is \<open>20\<^sup>2 = 400\<close>. One \<open>update\<close> later the cell
  (583, 251) alone holds 32.3375, so the sum is above 1045: the step uses
  \<open>2 * current - previous\<close>, and \<open>previous\<close> is still 0 there.
\<close>

theorem energy_decay_counterexample:
  "damping < 1
   \<and> run [AddWave 583 251] = Some (addWave_val 583 251 NewWaveGrid_val)
   \<and> update (addWave_val 583 251 NewWaveGrid_val)
       = Some (update_val (addWave_val 583 251 NewWaveGrid_val))
   \<and> sumSquares (addWave_val 583 251 NewWaveGrid_val) = 400
   \<and> 1045 < sumSquares (update_val (addWave_val 583 251 NewWaveGrid_val))
   \<and> \<not> sumSquares (update_val (addWave_val 583 251 NewWaveGrid_val))
         \<le> sumSquares (addWave_val 583 251 NewWaveGrid_val)"
proof -
  have u: "update (addWave_val 583 251 NewWaveGrid_val)
             = Some (update_val (addWave_val 583 251 NewWaveGrid_val))"
    using update_eq [OF wf_excited, of 583 251] by simp
  from u run_excited [of 583 251] sumSquares_excited sumSquares_stepped show ?thesis
    by (simp add: damping_def)
qed

text \<open>
  Claim C8, amended: with no excitation, a grid at rest stays at rest. If every cell of
  \<open>current\<close> and \<open>previous\<close> is zero before a step (as in the constructed grid), then every
  cell of both is zero after it, and the sum of the squared heights stays 0. For a grid that
  is not at rest the sum may grow in a step.
\<close>

theorem rest_stays_at_rest:
  assumes "wf_grid wg"
    and "\<forall>y x. inGrid y x \<longrightarrow> at2 (current wg) y x = 0 \<and> at2 (previous wg) y x = 0"
  shows "\<exists>wg'. update wg = Some wg' \<and> wf_grid wg'
           \<and> (\<forall>y x. inGrid y x \<longrightarrow> at2 (current wg') y x = 0 \<and> at2 (previous wg') y x = 0)
           \<and> sumSquares wg' = 0
           \<and> sumSquares wg' \<le> sumSquares wg"
proof -
  have r: "at_rest wg" using assms(2) by (simp add: at_rest_def)
  note r' = at_rest_update [OF assms(1) r]
  from r r' update_eq [OF assms(1)] show ?thesis
    by (simp add: sumSquares_at_rest) (simp add: at_rest_def)
qed

theorem rest_stays_at_rest_witness:
  "wf_grid NewWaveGrid_val
   \<and> current NewWaveGrid_val = replicate (nat gridHeight) (replicate (nat gridWidth) 0)
   \<and> previous NewWaveGrid_val = replicate (nat gridHeight) (replicate (nat gridWidth) 0)
   \<and> (\<exists>wg'. update NewWaveGrid_val = Some wg'
          \<and> at2 (current wg') 400 600 = 0
          \<and> sumSquares wg' = 0
          \<and> sumSquares wg' \<le> sumSquares NewWaveGrid_val)"
proof -
  have w: "wf_grid NewWaveGrid_val" by (simp add: NewWaveGrid_eq)
  have z: "\<forall>y x. inGrid y x \<longrightarrow> at2 (current NewWaveGrid_val) y x = 0
                          \<and> at2 (previous NewWaveGrid_val) y x = 0"
    by (simp add: NewWaveGrid_val_zero)
  from rest_stays_at_rest [OF w z] obtain wg' where
    "update NewWaveGrid_val = Some wg'"
    "\<forall>y x. inGrid y x \<longrightarrow> at2 (current wg') y x = 0 \<and> at2 (previous wg') y x = 0"
    "sumSquares wg' = 0" "sumSquares wg' \<le> sumSquares NewWaveGrid_val"
    by blast
  with grid_cells(1) have "update NewWaveGrid_val = Some wg'
          \<and> at2 (current wg') 400 600 = 0
          \<and> sumSquares wg' = 0
          \<and> sumSquares wg' \<le> sumSquares NewWaveGrid_val" by simp
  with w NewWaveGrid_val_current NewWaveGrid_val_previous show ?thesis by blast
qed

subsection \<open>Superposition of excitations\<close>

text \<open>
  Claim C6. Excitations add up: two excitations of the constructed grid followed by one step
  give, at every cell, the sum of the heights obtained by doing each excitation alone on a
  freshly constructed grid and stepping once. Each excitation adds to the height that is
  there, and the step is linear in \<open>current\<close> and \<open>previous\<close>, also with its in-place sweep.
  The equality is one of real numbers; the program computes in \<open>float64\<close>, where it holds up
  to rounding.
\<close>

theorem superposition:
  assumes "inGrid y x"
  shows "\<exists>w12 w1 w2.
           run [AddWave ax ay, AddWave bx by, Update] = Some w12
           \<and> run [AddWave ax ay, Update] = Some w1
           \<and> run [AddWave bx by, Update] = Some w2
           \<and> wf_grid w12 \<and> wf_grid w1 \<and> wf_grid w2
           \<and> at2 (current w12) y x = at2 (current w1) y x + at2 (current w2) y x"
proof -
  let ?N = "NewWaveGrid_val"
  have "is_sum (addWave_val ax ay ?N) (addWave_val bx by ?N)
          (addWave_val bx by (addWave_val ax ay ?N))"
    by (rule is_sum_twice_excited)
  then have "is_sum (update_val (addWave_val ax ay ?N)) (update_val (addWave_val bx by ?N))
               (update_val (addWave_val bx by (addWave_val ax ay ?N)))"
    by (rule is_sum_update)
  with assms have "wf_grid (update_val (addWave_val bx by (addWave_val ax ay ?N)))
      \<and> wf_grid (update_val (addWave_val ax ay ?N))
      \<and> wf_grid (update_val (addWave_val bx by ?N))
      \<and> at2 (current (update_val (addWave_val bx by (addWave_val ax ay ?N)))) y x
          = at2 (current (update_val (addWave_val ax ay ?N))) y x
            + at2 (current (update_val (addWave_val bx by ?N))) y x"
    by (simp add: is_sum_def)
  then show ?thesis
    using run_two_excited_stepped [of ax ay bx "by"] run_excited_stepped [of ax ay]
      run_excited_stepped [of bx "by"] by simp
qed

theorem superposition_witness:
  "inGrid 251 583
   \<and> (\<exists>w12 w1 w2.
        run [AddWave 583 251, AddWave 600 400, Update] = Some w12
        \<and> run [AddWave 583 251, Update] = Some w1
        \<and> run [AddWave 600 400, Update] = Some w2
        \<and> at2 (current w1) 251 583 = 32.3375
        \<and> at2 (current w12) 251 583 = at2 (current w1) 251 583 + at2 (current w2) 251 583)"
proof -
  from superposition [OF grid_cells(3), of 583 251 600 400] obtain w12 w1 w2 where
    r: "run [AddWave 583 251, AddWave 600 400, Update] = Some w12"
    "run [AddWave 583 251, Update] = Some w1"
    "run [AddWave 600 400, Update] = Some w2"
    "at2 (current w12) 251 583 = at2 (current w1) 251 583 + at2 (current w2) 251 583"
    by blast
  from r(2) have "w1 = update_val (addWave_val 583 251 NewWaveGrid_val)"
    using run_excited_stepped [of 583 251] by simp
  then have "at2 (current w1) 251 583 = 32.3375" by (simp add: stepped_583)
  with r grid_cells(3) show ?thesis by blast
qed

end
